theory Spec2Isabelle
  imports Complex_Main "HOL-Library.AList"
begin

section \<open>Access control: \<^verbatim>\<open>AuthUtils\<close> (src/utils/auth.ts)\<close>

text \<open>
  The Prisma enum \<^verbatim>\<open>Role\<close> has the five values the code compares against as string
  literals. \<^verbatim>\<open>IUser\<close> is the interface of the types file; its optional
  fields (\<^verbatim>\<open>email?\<close>, \<^verbatim>\<open>institutionId?\<close>, \<^verbatim>\<open>profilePic?\<close>) are options, with
  \<open>None\<close> for \<^verbatim>\<open>undefined\<close>. Dates are milliseconds since the epoch.
\<close>

datatype Role = SUPER_ADMIN | GLOBAL_CONTENT_CREATOR | ADMIN | TEACHER | STUDENT

record IUser =
  id_user :: string
  phoneNumber :: string
  email :: "string option"
  name_user :: string
  role :: Role
  institutionId :: "string option"
  approved :: bool
  profilePic :: "string option"
  createdAt_user :: int
  updatedAt_user :: int

text \<open>
  \<^verbatim>\<open>canAccessInstitution(user, institutionId: string)\<close>: the final comparison is
  \<^verbatim>\<open>user.institutionId === institutionId\<close>, an optional string against a string, so
  an undefined \<^verbatim>\<open>user.institutionId\<close> never matches.
\<close>

definition canAccessInstitution :: "IUser \<Rightarrow> string \<Rightarrow> bool" where
  "canAccessInstitution user instId =
     (if role user = SUPER_ADMIN \<or> role user = GLOBAL_CONTENT_CREATOR then True
      else institutionId user = Some instId)"

text \<open>
  \<^verbatim>\<open>canManageUsers(user, targetUser)\<close>: four \<^verbatim>\<open>if\<close> statements in the order of the
  source, each returning; the ADMIN and TEACHER conditions include the comparison
  \<^verbatim>\<open>user.institutionId === targetUser.institutionId\<close> of two optional strings (two
  undefined values are equal under \<^verbatim>\<open>===\<close>, as two \<open>None\<close> are here). When such a
  condition is false, control falls to the next \<^verbatim>\<open>if\<close>.
\<close>

definition canManageUsers :: "IUser \<Rightarrow> IUser \<Rightarrow> bool" where
  "canManageUsers user targetUser =
     (if role user = SUPER_ADMIN then True
      else if role user = GLOBAL_CONTENT_CREATOR then
        role targetUser \<in> set [GLOBAL_CONTENT_CREATOR, ADMIN, TEACHER, STUDENT]
      else if role user = ADMIN \<and> institutionId user = institutionId targetUser then
        role targetUser \<in> set [ADMIN, TEACHER, STUDENT]
      else if role user = TEACHER \<and> institutionId user = institutionId targetUser then
        role targetUser = STUDENT
      else False)"

text \<open>
  The specification's reading of the same function, for comparison: the principal's role
  alone selects the branch, and that branch decides (section 4.1).
\<close>

definition canManageUser_spec :: "IUser \<Rightarrow> IUser \<Rightarrow> bool" where
  "canManageUser_spec princ target =
     (case role princ of
        SUPER_ADMIN \<Rightarrow> True
      | GLOBAL_CONTENT_CREATOR \<Rightarrow>
          role target \<in> {GLOBAL_CONTENT_CREATOR, ADMIN, TEACHER, STUDENT}
      | ADMIN \<Rightarrow>
          institutionId princ = institutionId target \<and>
          role target \<in> {ADMIN, TEACHER, STUDENT}
      | TEACHER \<Rightarrow>
          institutionId princ = institutionId target \<and> role target = STUDENT
      | STUDENT \<Rightarrow> False)"

text \<open>
  The privilege order of the five roles, as the specification lists them and as the
  source's comment has it ("global content creators and below").
\<close>

fun privilege :: "Role \<Rightarrow> nat" where
  "privilege SUPER_ADMIN = 4"
| "privilege GLOBAL_CONTENT_CREATOR = 3"
| "privilege ADMIN = 2"
| "privilege TEACHER = 1"
| "privilege STUDENT = 0"

text \<open>A user record with the fields that no decision reads filled in.\<close>

definition mkUser :: "string \<Rightarrow> Role \<Rightarrow> string option \<Rightarrow> IUser" where
  "mkUser i r inst =
     \<lparr> id_user = i, phoneNumber = ''+10000000000'', email = None, name_user = ''user'',
       role = r, institutionId = inst, approved = True, profilePic = None,
       createdAt_user = 0, updatedAt_user = 0 \<rparr>"


section \<open>The store: quizzes, questions and attempts\<close>

text \<open>
  The rows follow the interfaces \<^verbatim>\<open>IQuiz\<close>, \<^verbatim>\<open>IQuestion\<close> and \<^verbatim>\<open>IQuizAttempt\<close> of the
  types file. Ids are strings chosen by the database. JSON columns and request bodies are
  values of \<open>json\<close>; a JavaScript object read by key is a map from keys to values, where
  \<open>None\<close> is \<^verbatim>\<open>undefined\<close>. Scores and points are integers: the columns are integer
  columns, and the model assumes sums of points stay in the range where JavaScript numbers
  are exact.
\<close>

datatype json =
    JNull
  | JBool bool
  | JNumber rat
  | JString string
  | JArray "json list"
  | JObject "(string \<times> json) list"

type_synonym js_object = "string \<rightharpoonup> json"

record IQuiz =
  id_quiz :: string
  title :: string
  description :: "string option"
  createdById :: string
  subjectId :: string
  institutionId_quiz :: "string option"
  startTime :: int
  endTime :: int
  durationMins :: int
  settings :: json
  isActive :: bool
  isCompleted :: bool
  createdAt_quiz :: int
  updatedAt_quiz :: int

record IQuestion =
  id_question :: string
  quizId_question :: string
  text_question :: string
  options :: "string list"
  answer :: string
  difficulty :: string
  points :: int
  createdAt_question :: int

record IQuizAttempt =
  id_attempt :: string
  quizId :: string
  studentId :: string
  answers :: "(string \<times> json option) list"
  score :: int
  maxScore :: int
  completed :: bool
  startedAt :: int
  submittedAt :: "int option"
  timeSpent :: "int option"

record store =
  quizzes :: "IQuiz list"
  questions :: "IQuestion list"
  attempts :: "IQuizAttempt list"

text \<open>
  What the services throw: \<^verbatim>\<open>CustomError(message, statusCode)\<close>, the plain
  \<^verbatim>\<open>Error\<close> of \<^verbatim>\<open>validateSchema\<close>, and Prisma's known request errors by code.
\<close>

datatype error =
    CustomError string nat
  | ValidationError
  | PrismaKnownRequestError string

text \<open>
  The Prisma queries the services use. \<^verbatim>\<open>findUnique\<close> by id and \<^verbatim>\<open>findFirst\<close> return
  the first matching row; \<^verbatim>\<open>include: { questions: true }\<close> returns the question rows of
  the quiz, in the order of the table.
\<close>

definition quiz_findUnique :: "string \<Rightarrow> store \<Rightarrow> IQuiz option" where
  "quiz_findUnique qid st = find (\<lambda>q. id_quiz q = qid) (quizzes st)"

definition quiz_questions :: "string \<Rightarrow> store \<Rightarrow> IQuestion list" where
  "quiz_questions qid st = filter (\<lambda>q. quizId_question q = qid) (questions st)"

definition quizAttempt_findFirst :: "string \<Rightarrow> string \<Rightarrow> store \<Rightarrow> IQuizAttempt option" where
  "quizAttempt_findFirst qid sid st =
     find (\<lambda>a. quizId a = qid \<and> studentId a = sid \<and> completed a = False) (attempts st)"

definition quizAttempt_findUnique :: "string \<Rightarrow> store \<Rightarrow> IQuizAttempt option" where
  "quizAttempt_findUnique aid st = find (\<lambda>a. id_attempt a = aid) (attempts st)"


section \<open>Starting an attempt: \<^verbatim>\<open>QuizService.startQuizAttempt\<close>\<close>

text \<open>
  What the call reads from outside: the clock at the window check (\<^verbatim>\<open>const now = new Date()\<close>),
  the clock at creation (\<^verbatim>\<open>startedAt: new Date()\<close>) and the id the database gives the
  new row.
\<close>

record start_env =
  now :: int
  startedAt_now :: int
  new_attempt_id :: string

text \<open>The student-facing view that the call returns: no field for the answer.\<close>

record question_view =
  id_qview :: string
  text_qview :: string
  options_qview :: "string list"
  difficulty_qview :: string
  points_qview :: int

record quiz_view =
  id_view :: string
  title_view :: string
  description_view :: "string option"
  durationMins_view :: int
  startTime_view :: int
  endTime_view :: int
  questions_view :: "question_view list"

record start_result =
  attemptId :: string
  quiz :: quiz_view

definition question_to_view :: "IQuestion \<Rightarrow> question_view" where
  "question_to_view q =
     \<lparr> id_qview = id_question q, text_qview = text_question q, options_qview = options q,
       difficulty_qview = difficulty q, points_qview = points q \<rparr>"

definition new_attempt :: "start_env \<Rightarrow> string \<Rightarrow> string \<Rightarrow> int \<Rightarrow> IQuizAttempt" where
  "new_attempt env qid sid m =
     \<lparr> id_attempt = new_attempt_id env, quizId = qid, studentId = sid, answers = [],
       score = 0, maxScore = m, completed = False, startedAt = startedAt_now env,
       submittedAt = None, timeSpent = None \<rparr>"

definition startQuizAttempt ::
  "start_env \<Rightarrow> string \<Rightarrow> string \<Rightarrow> store \<Rightarrow> (error + start_result) \<times> store" where
  "startQuizAttempt env qid sid st =
     (case quiz_findUnique qid st of
        None \<Rightarrow> (Inl (CustomError ''Quiz not found'' 404), st)
      | Some qz \<Rightarrow>
          if now env < startTime qz \<or> now env > endTime qz then
            (Inl (CustomError ''Quiz is not currently active'' 400), st)
          else
            (case quizAttempt_findFirst qid sid st of
               Some existingAttempt \<Rightarrow>
                 (Inl (CustomError ''You already have an active attempt for this quiz'' 400), st)
             | None \<Rightarrow>
                 let qs = quiz_questions qid st;
                     m = foldl (\<lambda>sum q. sum + points q) 0 qs;
                     attempt = new_attempt env qid sid m
                 in (Inr \<lparr> attemptId = id_attempt attempt,
                           quiz = \<lparr> id_view = id_quiz qz, title_view = title qz,
                                    description_view = description qz,
                                    durationMins_view = durationMins qz,
                                    startTime_view = startTime qz, endTime_view = endTime qz,
                                    questions_view = map question_to_view qs \<rparr> \<rparr>,
                     st\<lparr>attempts := attempts st @ [attempt]\<rparr>)))"


section \<open>JavaScript numbers\<close>

text \<open>
  The percentage of a submission is computed in JavaScript numbers, IEEE 754 binary64:
  a value is not-a-number, an infinity or a finite rational. Zero is not signed here; the
  operands of the division are integers read from the store, which are never negative zero.
  \<open>to_double\<close> rounds a rational to the nearest binary64 value, ties to the even
  significand: 53 bits of significand, exponents from -1022 (below that, the spacing of
  the subnormal range) to 1023, and an infinity beyond the largest finite value.
\<close>

datatype js_number = NaN | PosInfinity | NegInfinity | Finite rat

definition round_ties_even :: "rat \<Rightarrow> int" where
  "round_ties_even x =
     (let f = \<lfloor>x\<rfloor>; d = x - of_int f
      in if d < 1/2 then f else if 1/2 < d then f + 1 else if even f then f else f + 1)"

function bit_length :: "int \<Rightarrow> int" where
  "bit_length n = (if n \<le> 0 then 0 else 1 + bit_length (n div 2))"
  by pat_completeness auto
termination
  by (relation "measure nat") auto

declare bit_length.simps [simp del]

text \<open>The exponent of a positive rational: the integer \<open>e\<close> with \<open>2^e \<le> x < 2^(e+1)\<close>.\<close>

definition ilog2 :: "rat \<Rightarrow> int" where
  "ilog2 x =
     (if 1 \<le> x then bit_length \<lfloor>x\<rfloor> - 1
      else - bit_length (\<lceil>1 / x\<rceil> - 1))"

definition to_double :: "rat \<Rightarrow> js_number" where
  "to_double x =
     (if x = 0 then Finite 0
      else
        let a = \<bar>x\<bar>;
            e = max (ilog2 a) (- 1022);
            r = round_ties_even (a * 2 powi (52 - e))
        in if 1023 < e \<or> (e = 1023 \<and> r = 2 ^ 53) then (if 0 < x then PosInfinity else NegInfinity)
           else Finite ((if 0 < x then 1 else - 1) * of_int r * 2 powi (e - 52)))"

text \<open>Division and multiplication of numbers, and \<^verbatim>\<open>Math.round\<close> (halves go up).\<close>

fun js_divide :: "js_number \<Rightarrow> js_number \<Rightarrow> js_number" where
  "js_divide NaN y = NaN"
| "js_divide x NaN = NaN"
| "js_divide (Finite x) (Finite y) =
     (if y = 0 then (if x = 0 then NaN else if 0 < x then PosInfinity else NegInfinity)
      else to_double (x / y))"
| "js_divide (Finite x) y = Finite 0"
| "js_divide PosInfinity (Finite y) = (if 0 \<le> y then PosInfinity else NegInfinity)"
| "js_divide NegInfinity (Finite y) = (if 0 \<le> y then NegInfinity else PosInfinity)"
| "js_divide x y = NaN"

fun js_times :: "js_number \<Rightarrow> js_number \<Rightarrow> js_number" where
  "js_times NaN y = NaN"
| "js_times x NaN = NaN"
| "js_times (Finite x) (Finite y) = to_double (x * y)"
| "js_times (Finite x) PosInfinity =
     (if x = 0 then NaN else if 0 < x then PosInfinity else NegInfinity)"
| "js_times (Finite x) NegInfinity =
     (if x = 0 then NaN else if 0 < x then NegInfinity else PosInfinity)"
| "js_times PosInfinity (Finite y) =
     (if y = 0 then NaN else if 0 < y then PosInfinity else NegInfinity)"
| "js_times NegInfinity (Finite y) =
     (if y = 0 then NaN else if 0 < y then NegInfinity else PosInfinity)"
| "js_times PosInfinity PosInfinity = PosInfinity"
| "js_times PosInfinity NegInfinity = NegInfinity"
| "js_times NegInfinity PosInfinity = NegInfinity"
| "js_times NegInfinity NegInfinity = PosInfinity"

fun Math_round :: "js_number \<Rightarrow> js_number" where
  "Math_round (Finite x) = Finite (of_int \<lfloor>x + 1/2\<rfloor>)"
| "Math_round x = x"

text \<open>
  Scores and maxima come from integer columns of the store (32 bits): as numbers they are
  the same integers, exactly.
\<close>

definition js_of_int :: "int \<Rightarrow> js_number" where
  "js_of_int n = Finite (of_int n)"

text \<open>\<^verbatim>\<open>Math.round((score / maxScore) * 100)\<close>.\<close>

definition percentage_of :: "int \<Rightarrow> int \<Rightarrow> js_number" where
  "percentage_of s m = Math_round (js_times (js_divide (js_of_int s) (js_of_int m)) (Finite 100))"


section \<open>Submitting an attempt: \<^verbatim>\<open>QuizService.submitQuizAttempt\<close>\<close>

text \<open>
  The scoring loop over \<^verbatim>\<open>attempt.quiz.questions\<close>, the questions the quiz has when the
  attempt is loaded for the submission. The caller's \<^verbatim>\<open>answers\<close> is an object (the
  controller refuses a request without one), read by own keys: \<^verbatim>\<open>answers[question.id]\<close>
  is the value under the question's id, or undefined. \<^verbatim>\<open>questionAnswers[question.id] =
  studentAnswer\<close> sets a key of the object being built, and \<^verbatim>\<open>studentAnswer ===
  question.answer\<close> holds only for a string value with the same characters.
\<close>

definition strict_equals_string :: "json option \<Rightarrow> string \<Rightarrow> bool" where
  "strict_equals_string v s = (v = Some (JString s))"

fun score_loop ::
  "js_object \<Rightarrow> IQuestion list \<Rightarrow> int \<times> (string \<times> json option) list
     \<Rightarrow> int \<times> (string \<times> json option) list" where
  "score_loop ans [] (sc, questionAnswers) = (sc, questionAnswers)"
| "score_loop ans (question # rest) (sc, questionAnswers) =
     (let studentAnswer = ans (id_question question);
          questionAnswers' = AList.update (id_question question) studentAnswer questionAnswers;
          sc' = (if strict_equals_string studentAnswer (answer question)
                 then sc + points question else sc)
      in score_loop ans rest (sc', questionAnswers'))"

text \<open>
  What the call reads from outside: \<^verbatim>\<open>Date.now()\<close> for the time spent and
  \<^verbatim>\<open>new Date()\<close> for \<^verbatim>\<open>submittedAt\<close>.
\<close>

record submit_env =
  date_now :: int
  submittedAt_now :: int

record submit_result =
  attemptId_result :: string
  score_result :: int
  maxScore_result :: int
  percentage :: js_number
  timeSpent_result :: "int option"
  completed_result :: bool

definition quizAttempt_update ::
  "string \<Rightarrow> (IQuizAttempt \<Rightarrow> IQuizAttempt) \<Rightarrow> store \<Rightarrow> store" where
  "quizAttempt_update aid f st =
     st\<lparr>attempts := map (\<lambda>a. if id_attempt a = aid then f a else a) (attempts st)\<rparr>"

definition submitQuizAttempt ::
  "submit_env \<Rightarrow> string \<Rightarrow> js_object \<Rightarrow> string \<Rightarrow> store \<Rightarrow> (error + submit_result) \<times> store" where
  "submitQuizAttempt env aid ans sid st =
     (case quizAttempt_findUnique aid st of
        None \<Rightarrow> (Inl (CustomError ''Quiz attempt not found'' 404), st)
      | Some attempt \<Rightarrow>
          if studentId attempt \<noteq> sid then
            (Inl (CustomError ''Unauthorized access to quiz attempt'' 403), st)
          else if completed attempt then
            (Inl (CustomError ''Quiz attempt already completed'' 400), st)
          else
            let (sc, questionAnswers) = score_loop ans (quiz_questions (quizId attempt) st) (0, []);
                spent = (date_now env - startedAt attempt) div (1000 * 60);
                upd = (\<lambda>a. a\<lparr> answers := questionAnswers, score := sc, completed := True,
                                submittedAt := Some (submittedAt_now env),
                                timeSpent := Some spent \<rparr>);
                updatedAttempt = upd attempt
            in (Inr \<lparr> attemptId_result = id_attempt updatedAttempt,
                      score_result = score updatedAttempt,
                      maxScore_result = maxScore updatedAttempt,
                      percentage = percentage_of (score updatedAttempt) (maxScore updatedAttempt),
                      timeSpent_result = timeSpent updatedAttempt,
                      completed_result = completed updatedAttempt \<rparr>,
                quizAttempt_update aid upd st))"


section \<open>The other operations of \<^verbatim>\<open>QuizService\<close> that write to the store\<close>

text \<open>
  \<^verbatim>\<open>addQuestion\<close> validates its input against the schema \<^verbatim>\<open>questionCreate\<close> (a failure is
  the plain error of \<^verbatim>\<open>validateSchema\<close>), requires the quiz to exist and creates the
  question row. The schema: the quiz id matches \<^verbatim>\<open>/^c[a-z0-9]{24}$/\<close>, the text has 5 to
  1000 characters, there are 2 to 6 options of 1 to 200 characters, the answer is a
  non-empty string, the difficulty is one of three words, and the points are an integer
  from 1 to 10, 1 when absent.
\<close>

record IQuestionCreate =
  quizId_data :: string
  text_data :: string
  options_data :: "string list"
  answer_data :: string
  difficulty_data :: string
  points_data :: "int option"

definition is_cuid :: "string \<Rightarrow> bool" where
  "is_cuid s =
     (case s of
        [] \<Rightarrow> False
      | c # cs \<Rightarrow> c = CHR ''c'' \<and> length cs = 24 \<and>
                 list_all (\<lambda>x. x \<in> set ''abcdefghijklmnopqrstuvwxyz0123456789'') cs)"

definition questionCreate_valid :: "IQuestionCreate \<Rightarrow> bool" where
  "questionCreate_valid d =
     (is_cuid (quizId_data d) \<and>
      5 \<le> length (text_data d) \<and> length (text_data d) \<le> 1000 \<and>
      2 \<le> length (options_data d) \<and> length (options_data d) \<le> 6 \<and>
      list_all (\<lambda>opt. 1 \<le> length opt \<and> length opt \<le> 200) (options_data d) \<and>
      answer_data d \<noteq> [] \<and>
      difficulty_data d \<in> set [''easy'', ''medium'', ''hard''] \<and>
      (case points_data d of None \<Rightarrow> True | Some p \<Rightarrow> 1 \<le> p \<and> p \<le> 10))"

record add_env =
  new_question_id :: string
  createdAt_now :: int

definition addQuestion :: "add_env \<Rightarrow> IQuestionCreate \<Rightarrow> store \<Rightarrow> (error + IQuestion) \<times> store" where
  "addQuestion env d st =
     (if \<not> questionCreate_valid d then (Inl ValidationError, st)
      else
        (case quiz_findUnique (quizId_data d) st of
           None \<Rightarrow> (Inl (CustomError ''Quiz not found'' 404), st)
         | Some qz \<Rightarrow>
             let question =
                   \<lparr> id_question = new_question_id env, quizId_question = quizId_data d,
                     text_question = text_data d, options = options_data d,
                     answer = answer_data d, difficulty = difficulty_data d,
                     points = (case points_data d of None \<Rightarrow> 1 | Some p \<Rightarrow> p),
                     createdAt_question = createdAt_now env \<rparr>
             in (Inr question, st\<lparr>questions := questions st @ [question]\<rparr>)))"

text \<open>
  \<^verbatim>\<open>updateQuiz\<close> and \<^verbatim>\<open>scheduleQuiz\<close> are one \<^verbatim>\<open>prisma.quiz.update\<close> each, which fails with
  the request error P2025 when no row has the id. The fields of \<^verbatim>\<open>IQuizUpdate\<close> are all
  optional; an absent field leaves the column as it is.
\<close>

record IQuizUpdate =
  title_upd :: "string option"
  description_upd :: "string option"
  startTime_upd :: "int option"
  endTime_upd :: "int option"
  durationMins_upd :: "int option"
  settings_upd :: "json option"
  isActive_upd :: "bool option"
  isCompleted_upd :: "bool option"

definition quiz_update :: "string \<Rightarrow> (IQuiz \<Rightarrow> IQuiz) \<Rightarrow> store \<Rightarrow> (error + IQuiz) \<times> store" where
  "quiz_update qid f st =
     (case quiz_findUnique qid st of
        None \<Rightarrow> (Inl (PrismaKnownRequestError ''P2025''), st)
      | Some qz \<Rightarrow>
          (Inr (f qz),
           st\<lparr>quizzes := map (\<lambda>q. if id_quiz q = qid then f q else q) (quizzes st)\<rparr>))"

definition apply_quiz_update :: "IQuizUpdate \<Rightarrow> IQuiz \<Rightarrow> IQuiz" where
  "apply_quiz_update u q =
     q\<lparr> title := (case title_upd u of None \<Rightarrow> title q | Some v \<Rightarrow> v),
        description := (case description_upd u of None \<Rightarrow> description q | Some v \<Rightarrow> Some v),
        startTime := (case startTime_upd u of None \<Rightarrow> startTime q | Some v \<Rightarrow> v),
        endTime := (case endTime_upd u of None \<Rightarrow> endTime q | Some v \<Rightarrow> v),
        durationMins := (case durationMins_upd u of None \<Rightarrow> durationMins q | Some v \<Rightarrow> v),
        settings := (case settings_upd u of None \<Rightarrow> settings q | Some v \<Rightarrow> v),
        isActive := (case isActive_upd u of None \<Rightarrow> isActive q | Some v \<Rightarrow> v),
        isCompleted := (case isCompleted_upd u of None \<Rightarrow> isCompleted q | Some v \<Rightarrow> v) \<rparr>"

definition updateQuiz :: "string \<Rightarrow> IQuizUpdate \<Rightarrow> store \<Rightarrow> (error + IQuiz) \<times> store" where
  "updateQuiz qid updateData st = quiz_update qid (apply_quiz_update updateData) st"

definition scheduleQuiz :: "string \<Rightarrow> int \<Rightarrow> int \<Rightarrow> int \<Rightarrow> store \<Rightarrow> (error + IQuiz) \<times> store" where
  "scheduleQuiz qid start_t end_t mins st =
     quiz_update qid (\<lambda>q. q\<lparr> startTime := start_t, endTime := end_t, durationMins := mins \<rparr>) st"

text \<open>
  \<^verbatim>\<open>deleteQuiz\<close> refuses a quiz that has attempts, then deletes the questions of the quiz,
  then the quiz row. The two deletions are separate calls: when the second fails because
  no quiz has the id, the first has already run.
\<close>

definition deleteQuiz :: "string \<Rightarrow> store \<Rightarrow> (error + string) \<times> store" where
  "deleteQuiz qid st =
     (if length (filter (\<lambda>a. quizId a = qid) (attempts st)) > 0 then
        (Inl (CustomError ''Cannot delete quiz with existing attempts'' 400), st)
      else
        let st1 = st\<lparr>questions := filter (\<lambda>q. quizId_question q \<noteq> qid) (questions st)\<rparr>
        in (case quiz_findUnique qid st1 of
              None \<Rightarrow> (Inl (PrismaKnownRequestError ''P2025''), st1)
            | Some qz \<Rightarrow>
                (Inr ''Quiz deleted successfully'',
                 st1\<lparr>quizzes := filter (\<lambda>q. id_quiz q \<noteq> qid) (quizzes st1)\<rparr>)))"

text \<open>
  \<^verbatim>\<open>createQuiz\<close> and \<^verbatim>\<open>generateQuizWithAI\<close> write a new quiz row, the second also the
  question rows of the new quiz. What they check first (the schema \<^verbatim>\<open>quizCreate\<close>, the
  subject and institution tables, the store's own constraints) reads nothing of this
  store, so it enters as its outcome: the error thrown, if any. The rows written are
  arguments; \<^verbatim>\<open>generateQuizWithAI\<close> creates the quiz, then the questions, in two steps that
  may each fail.
\<close>

definition createQuiz :: "error option \<Rightarrow> IQuiz \<Rightarrow> store \<Rightarrow> (error + IQuiz) \<times> store" where
  "createQuiz rejected row st =
     (case rejected of
        Some e \<Rightarrow> (Inl e, st)
      | None \<Rightarrow> (Inr row, st\<lparr>quizzes := quizzes st @ [row]\<rparr>))"

definition generateQuizWithAI ::
  "error option \<Rightarrow> error option \<Rightarrow> IQuiz \<Rightarrow> IQuestion list \<Rightarrow> store
     \<Rightarrow> (error + IQuiz \<times> IQuestion list) \<times> store" where
  "generateQuizWithAI quiz_rejected questions_rejected row qrows st =
     (case quiz_rejected of
        Some e \<Rightarrow> (Inl e, st)
      | None \<Rightarrow>
          let st1 = st\<lparr>quizzes := quizzes st @ [row]\<rparr>
          in (case questions_rejected of
                Some e \<Rightarrow> (Inl e, st1)
              | None \<Rightarrow> (Inr (row, qrows), st1\<lparr>questions := questions st1 @ qrows\<rparr>)))"

text \<open>
  One call of the service, and the store after it, whatever its outcome; a history is a
  list of calls run one after the other.
\<close>

datatype op =
    Start start_env string string
  | Submit submit_env string js_object string
  | AddQuestion add_env IQuestionCreate
  | UpdateQuiz string IQuizUpdate
  | ScheduleQuiz string int int int
  | DeleteQuiz string
  | CreateQuiz "error option" IQuiz
  | GenerateQuizWithAI "error option" "error option" IQuiz "IQuestion list"

fun exec :: "op \<Rightarrow> store \<Rightarrow> store" where
  "exec (Start env qid sid) st = snd (startQuizAttempt env qid sid st)"
| "exec (Submit env aid ans sid) st = snd (submitQuizAttempt env aid ans sid st)"
| "exec (AddQuestion env d) st = snd (addQuestion env d st)"
| "exec (UpdateQuiz qid u) st = snd (updateQuiz qid u st)"
| "exec (ScheduleQuiz qid s e m) st = snd (scheduleQuiz qid s e m st)"
| "exec (DeleteQuiz qid) st = snd (deleteQuiz qid st)"
| "exec (CreateQuiz rej row) st = snd (createQuiz rej row st)"
| "exec (GenerateQuizWithAI rej1 rej2 row qrows) st = snd (generateQuizWithAI rej1 rej2 row qrows st)"

definition run :: "op list \<Rightarrow> store \<Rightarrow> store" where
  "run ops st = fold exec ops st"

text \<open>The number of attempts of a student on a quiz that are still in progress.\<close>

definition in_progress :: "string \<Rightarrow> string \<Rightarrow> store \<Rightarrow> IQuizAttempt list" where
  "in_progress qid sid st =
     filter (\<lambda>a. quizId a = qid \<and> studentId a = sid \<and> \<not> completed a) (attempts st)"


section \<open>Notions used to state the properties\<close>

text \<open>
  The score the specification asks for: the points of the questions whose id the caller's
  object maps to a string equal to the question's answer.
\<close>

definition scored :: "js_object \<Rightarrow> IQuestion list \<Rightarrow> int" where
  "scored ans qs =
     sum_list (map points (filter (\<lambda>q. ans (id_question q) = Some (JString (answer q))) qs))"

text \<open>The row that a successful submission leaves in the store.\<close>

definition submitted ::
  "submit_env \<Rightarrow> js_object \<Rightarrow> IQuestion list \<Rightarrow> int \<Rightarrow> IQuizAttempt \<Rightarrow> IQuizAttempt" where
  "submitted env ans qs started a =
     a\<lparr> answers := snd (score_loop ans qs (0, [])), score := scored ans qs, completed := True,
        submittedAt := Some (submittedAt_now env),
        timeSpent := Some ((date_now env - started) div 60000) \<rparr>"

text \<open>
  A small store for the concrete cases: one quiz, open from time 1000 to time 2000, with
  the two questions of the specification's scoring example.
\<close>

definition example_quiz :: IQuiz where
  "example_quiz =
     \<lparr> id_quiz = ''cquiz00000000000000000000'', title = ''Arithmetic'', description = None,
       createdById = ''teacher1'', subjectId = ''csubject00000000000000000'',
       institutionId_quiz = None, startTime = 1000, endTime = 2000, durationMins = 30,
       settings = JObject [], isActive = True, isCompleted = False,
       createdAt_quiz = 0, updatedAt_quiz = 0 \<rparr>"

definition example_q1 :: IQuestion where
  "example_q1 =
     \<lparr> id_question = ''q1'', quizId_question = ''cquiz00000000000000000000'',
       text_question = ''2 + 2 = ?'', options = [''3'', ''4''], answer = ''4'',
       difficulty = ''easy'', points = 1, createdAt_question = 0 \<rparr>"

definition example_q2 :: IQuestion where
  "example_q2 =
     \<lparr> id_question = ''q2'', quizId_question = ''cquiz00000000000000000000'',
       text_question = ''2 + 3 = ?'', options = [''5'', ''6''], answer = ''5'',
       difficulty = ''easy'', points = 2, createdAt_question = 0 \<rparr>"

definition example_store :: store where
  "example_store = \<lparr> quizzes = [example_quiz], questions = [example_q1, example_q2], attempts = [] \<rparr>"

definition start_at :: "int \<Rightarrow> string \<Rightarrow> start_env" where
  "start_at t i = \<lparr> now = t, startedAt_now = t, new_attempt_id = i \<rparr>"

definition submit_at :: "int \<Rightarrow> submit_env" where
  "submit_at t = \<lparr> date_now = t, submittedAt_now = t \<rparr>"

definition started_store :: store where
  "started_store =
     snd (startQuizAttempt (start_at 1500 ''a1'') ''cquiz00000000000000000000'' ''student1'' example_store)"

text \<open>The answers of the specification's scoring example.\<close>

definition example_answers :: js_object where
  "example_answers = [''q1'' \<mapsto> JString ''4'', ''q2'' \<mapsto> JString ''6'']"

text \<open>The example store after the attempt has been started and submitted.\<close>

definition completed_store :: store where
  "completed_store =
     snd (submitQuizAttempt (submit_at 1600) ''a1'' example_answers ''student1'' started_store)"

text \<open>
  A third question added to the quiz after the attempt was started, and the answers
  that are right on all three.
\<close>

definition example_q3_data :: IQuestionCreate where
  "example_q3_data =
     \<lparr> quizId_data = ''cquiz00000000000000000000'', text_data = ''4 + 5 = ?'',
       options_data = [''8'', ''9''], answer_data = ''9'', difficulty_data = ''hard'',
       points_data = Some 5 \<rparr>"

definition added_store :: store where
  "added_store =
     snd (addQuestion \<lparr> new_question_id = ''q3'', createdAt_now = 1550 \<rparr> example_q3_data started_store)"

definition all_correct :: js_object where
  "all_correct = [''q1'' \<mapsto> JString ''4'', ''q2'' \<mapsto> JString ''5'', ''q3'' \<mapsto> JString ''9'']"







text \<open>The store with the answer of every question replaced.\<close>

definition with_answers :: "(IQuestion \<Rightarrow> string) \<Rightarrow> store \<Rightarrow> store" where
  "with_answers f st = st\<lparr>questions := map (\<lambda>q. q\<lparr>answer := f q\<rparr>) (questions st)\<rparr>"

text \<open>
  The two halves of \<open>startQuizAttempt\<close>, for calls that overlap in time. The service
  awaits the store between its reads (the quiz, the attempt in progress) and its write
  (the new attempt), with no transaction around them. \<open>start_check\<close> is the reads and
  the checks, \<open>start_insert\<close> the write and the result, from the quiz and questions
  read before.
\<close>

definition start_check ::
  "start_env \<Rightarrow> string \<Rightarrow> string \<Rightarrow> store \<Rightarrow> error + IQuiz \<times> IQuestion list" where
  "start_check env qid sid st =
     (case quiz_findUnique qid st of
        None \<Rightarrow> Inl (CustomError ''Quiz not found'' 404)
      | Some qz \<Rightarrow>
          if now env < startTime qz \<or> now env > endTime qz then
            Inl (CustomError ''Quiz is not currently active'' 400)
          else
            (case quizAttempt_findFirst qid sid st of
               Some existingAttempt \<Rightarrow>
                 Inl (CustomError ''You already have an active attempt for this quiz'' 400)
             | None \<Rightarrow> Inr (qz, quiz_questions qid st)))"

definition start_insert ::
  "start_env \<Rightarrow> string \<Rightarrow> string \<Rightarrow> IQuiz \<times> IQuestion list \<Rightarrow> store
     \<Rightarrow> (error + start_result) \<times> store" where
  "start_insert env qid sid read st =
     (let (qz, qs) = read;
          m = foldl (\<lambda>sum q. sum + points q) 0 qs;
          attempt = new_attempt env qid sid m
      in (Inr \<lparr> attemptId = id_attempt attempt,
                quiz = \<lparr> id_view = id_quiz qz, title_view = title qz,
                         description_view = description qz,
                         durationMins_view = durationMins qz,
                         startTime_view = startTime qz, endTime_view = endTime qz,
                         questions_view = map question_to_view qs \<rparr> \<rparr>,
          st\<lparr>attempts := attempts st @ [attempt]\<rparr>))"

text \<open>
  Two calls that overlap: both run their checks against the same store, then the first
  writes, then the second.
\<close>

definition two_starts_interleaved ::
  "start_env \<Rightarrow> start_env \<Rightarrow> string \<Rightarrow> string \<Rightarrow> store
     \<Rightarrow> (error + start_result) \<times> (error + start_result) \<times> store" where
  "two_starts_interleaved env1 env2 qid sid st =
     (let c1 = start_check env1 qid sid st;
          c2 = start_check env2 qid sid st;
          (r1, st1) = (case c1 of Inl e \<Rightarrow> (Inl e, st) | Inr read \<Rightarrow> start_insert env1 qid sid read st);
          (r2, st2) = (case c2 of Inl e \<Rightarrow> (Inl e, st1) | Inr read \<Rightarrow> start_insert env2 qid sid read st1)
      in (r1, r2, st2))"
section \<open>Properties of the access control functions\<close>

text \<open>
  C1. For every principal and every institution id, \<open>canAccessInstitution\<close> is true when
  the principal's role is SUPER_ADMIN or GLOBAL_CONTENT_CREATOR; for every other role it is
  true if and only if the principal's own institution id is the given one.
\<close>

theorem canAccessInstitution_spec:
  "(role user \<in> {SUPER_ADMIN, GLOBAL_CONTENT_CREATOR} \<longrightarrow> canAccessInstitution user instId) \<and>
   (role user \<notin> {SUPER_ADMIN, GLOBAL_CONTENT_CREATOR} \<longrightarrow>
      canAccessInstitution user instId = (institutionId user = Some instId))"
  by (simp add: canAccessInstitution_def)

theorem canAccessInstitution_spec_witness:
  "canAccessInstitution (mkUser ''u1'' SUPER_ADMIN None) ''inst-1'' \<and>
   canAccessInstitution (mkUser ''u2'' TEACHER (Some ''inst-1'')) ''inst-1'' \<and>
   \<not> canAccessInstitution (mkUser ''u2'' TEACHER (Some ''inst-1'')) ''inst-2'' \<and>
   \<not> canAccessInstitution (mkUser ''u3'' STUDENT None) ''inst-2''"
  using canAccessInstitution_spec [of "mkUser ''u1'' SUPER_ADMIN None" "''inst-1''"]
    canAccessInstitution_spec [of "mkUser ''u2'' TEACHER (Some ''inst-1'')" "''inst-1''"]
    canAccessInstitution_spec [of "mkUser ''u2'' TEACHER (Some ''inst-1'')" "''inst-2''"]
    canAccessInstitution_spec [of "mkUser ''u3'' STUDENT None" "''inst-2''"]
  by (simp add: mkUser_def)

text \<open>
  C8. \<open>canManageUsers\<close> never returns true for a target whose role is strictly more
  privileged than the principal's, and it agrees everywhere with the branch rules of the
  specification, where the principal's role alone selects the deciding branch: STUDENT
  manages nobody, TEACHER only same-institution STUDENTs, ADMIN only same-institution
  ADMIN, TEACHER and STUDENT, GLOBAL_CONTENT_CREATOR everybody but SUPER_ADMIN.
\<close>

theorem canManageUsers_never_upward:
  "(canManageUsers user targetUser \<longrightarrow> privilege (role targetUser) \<le> privilege (role user)) \<and>
   canManageUsers user targetUser = canManageUser_spec user targetUser"
  by (cases "role user"; cases "role targetUser")
     (simp_all add: canManageUsers_def canManageUser_spec_def)

theorem canManageUsers_never_upward_witness:
  "canManageUsers (mkUser ''t1'' TEACHER (Some ''inst-1'')) (mkUser ''s1'' STUDENT (Some ''inst-1'')) \<and>
   privilege (role (mkUser ''s1'' STUDENT (Some ''inst-1'')))
     \<le> privilege (role (mkUser ''t1'' TEACHER (Some ''inst-1''))) \<and>
   \<not> canManageUsers (mkUser ''t1'' TEACHER (Some ''inst-1'')) (mkUser ''a1'' ADMIN (Some ''inst-1''))"
  using canManageUsers_never_upward
      [of "mkUser ''t1'' TEACHER (Some ''inst-1'')" "mkUser ''s1'' STUDENT (Some ''inst-1'')"]
    canManageUsers_never_upward
      [of "mkUser ''t1'' TEACHER (Some ''inst-1'')" "mkUser ''a1'' ADMIN (Some ''inst-1'')"]
  by (simp add: mkUser_def canManageUser_spec_def)
section \<open>Lemmas about the attempt operations\<close>

lemma startQuizAttempt_notFound:
  "quiz_findUnique qid st = None \<Longrightarrow>
   startQuizAttempt env qid sid st = (Inl (CustomError ''Quiz not found'' 404), st)"
  by (simp add: startQuizAttempt_def)

lemma startQuizAttempt_notActive:
  "quiz_findUnique qid st = Some qz \<Longrightarrow> now env < startTime qz \<or> endTime qz < now env \<Longrightarrow>
   startQuizAttempt env qid sid st = (Inl (CustomError ''Quiz is not currently active'' 400), st)"
  by (auto simp add: startQuizAttempt_def)

lemma startQuizAttempt_conflict:
  "quiz_findUnique qid st = Some qz \<Longrightarrow> startTime qz \<le> now env \<Longrightarrow> now env \<le> endTime qz \<Longrightarrow>
   quizAttempt_findFirst qid sid st = Some a \<Longrightarrow>
   startQuizAttempt env qid sid st =
     (Inl (CustomError ''You already have an active attempt for this quiz'' 400), st)"
  by (simp add: startQuizAttempt_def)

lemma foldl_points: "foldl (\<lambda>sum q. sum + points q) z qs = z + sum_list (map points qs)"
  by (induction qs arbitrary: z) simp_all

lemma startQuizAttempt_success:
  "quiz_findUnique qid st = Some qz \<Longrightarrow> startTime qz \<le> now env \<Longrightarrow> now env \<le> endTime qz \<Longrightarrow>
   quizAttempt_findFirst qid sid st = None \<Longrightarrow>
   startQuizAttempt env qid sid st =
     (Inr \<lparr> attemptId = new_attempt_id env,
            quiz = \<lparr> id_view = id_quiz qz, title_view = title qz,
                     description_view = description qz, durationMins_view = durationMins qz,
                     startTime_view = startTime qz, endTime_view = endTime qz,
                     questions_view = map question_to_view (quiz_questions qid st) \<rparr> \<rparr>,
      st\<lparr>attempts := attempts st @
            [new_attempt env qid sid (sum_list (map points (quiz_questions qid st)))]\<rparr>)"
  by (simp add: startQuizAttempt_def Let_def foldl_points new_attempt_def)

lemma findFirst_None_iff: "quizAttempt_findFirst qid sid st = None \<longleftrightarrow> in_progress qid sid st = []"
  by (auto simp add: quizAttempt_findFirst_def in_progress_def find_None_iff filter_empty_conv)

lemma score_loop_score:
  "fst (score_loop ans qs (sc, qa)) =
     sc + sum_list (map points (filter (\<lambda>q. ans (id_question q) = Some (JString (answer q))) qs))"
  by (induction qs arbitrary: sc qa) (simp_all add: Let_def strict_equals_string_def)

lemma score_loop_answers:
  "map_of (snd (score_loop ans qs (sc, qa))) k =
     (if k \<in> id_question ` set qs then Some (ans k) else map_of qa k)"
  by (induction qs arbitrary: sc qa) (auto simp add: Let_def update_conv')

lemma submit_notFound:
  "quizAttempt_findUnique aid st = None \<Longrightarrow>
   submitQuizAttempt env aid ans sid st = (Inl (CustomError ''Quiz attempt not found'' 404), st)"
  by (simp add: submitQuizAttempt_def)

lemma submit_forbidden:
  "quizAttempt_findUnique aid st = Some a \<Longrightarrow> studentId a \<noteq> sid \<Longrightarrow>
   submitQuizAttempt env aid ans sid st = (Inl (CustomError ''Unauthorized access to quiz attempt'' 403), st)"
  by (simp add: submitQuizAttempt_def)

lemma submit_completed:
  "quizAttempt_findUnique aid st = Some a \<Longrightarrow> studentId a = sid \<Longrightarrow> completed a \<Longrightarrow>
   submitQuizAttempt env aid ans sid st = (Inl (CustomError ''Quiz attempt already completed'' 400), st)"
  by (simp add: submitQuizAttempt_def)

lemma submit_success:
  assumes "quizAttempt_findUnique aid st = Some a" "studentId a = sid" "\<not> completed a"
  shows "submitQuizAttempt env aid ans sid st =
     (Inr \<lparr> attemptId_result = id_attempt a, score_result = scored ans (quiz_questions (quizId a) st),
            maxScore_result = maxScore a,
            percentage = percentage_of (scored ans (quiz_questions (quizId a) st)) (maxScore a),
            timeSpent_result = Some ((date_now env - startedAt a) div 60000),
            completed_result = True \<rparr>,
      quizAttempt_update aid (submitted env ans (quiz_questions (quizId a) st) (startedAt a)) st)"
proof -
  obtain sc qa where sl: "score_loop ans (quiz_questions (quizId a) st) (0, []) = (sc, qa)"
    by (cases "score_loop ans (quiz_questions (quizId a) st) (0, [])") 
  have sc: "sc = scored ans (quiz_questions (quizId a) st)"
    using score_loop_score [of ans "quiz_questions (quizId a) st" 0 "[]"] sl
    by (simp add: scored_def)
  have upd: "submitted env ans (quiz_questions (quizId a) st) (startedAt a) =
      (\<lambda>x. x\<lparr> answers := qa, score := sc, completed := True,
                 submittedAt := Some (submittedAt_now env),
                 timeSpent := Some ((date_now env - startedAt a) div 60000) \<rparr>)"
    by (rule ext) (simp add: submitted_def sl sc)
  show ?thesis
    using assms sl
    by (simp add: submitQuizAttempt_def Let_def upd) (simp add: sc)
qed

lemma exec_other_attempts:
  "attempts (exec (AddQuestion env1 d) st) = attempts st"
  "attempts (exec (UpdateQuiz qid u) st) = attempts st"
  "attempts (exec (ScheduleQuiz qid s e m) st) = attempts st"
  "attempts (exec (DeleteQuiz qid) st) = attempts st"
  "attempts (exec (CreateQuiz rej row) st) = attempts st"
  "attempts (exec (GenerateQuizWithAI rej1 rej2 row qrows) st) = attempts st"
  by (simp_all add: addQuestion_def updateQuiz_def scheduleQuiz_def quiz_update_def deleteQuiz_def
        createQuiz_def generateQuizWithAI_def Let_def split: option.splits)

lemma exec_Start_attempts:
  "attempts (exec (Start env qid sid) st) = attempts st \<or>
   (in_progress qid sid st = [] \<and>
    attempts (exec (Start env qid sid) st) =
      attempts st @ [new_attempt env qid sid (sum_list (map points (quiz_questions qid st)))])"
  by (auto simp add: startQuizAttempt_def Let_def foldl_points findFirst_None_iff split: option.splits)

lemma exec_Submit_attempts:
  "attempts (exec (Submit env aid ans sid) st) = attempts st \<or>
   (\<exists>a. quizAttempt_findUnique aid st = Some a \<and> studentId a = sid \<and> \<not> completed a \<and>
        attempts (exec (Submit env aid ans sid) st) =
          map (\<lambda>x. if id_attempt x = aid
                    then submitted env ans (quiz_questions (quizId a) st) (startedAt a) x else x)
              (attempts st))"
proof (cases "quizAttempt_findUnique aid st")
  case None
  then show ?thesis by (simp add: submit_notFound)
next
  case (Some a)
  show ?thesis
  proof (cases "studentId a = sid \<and> \<not> completed a")
    case True
    then show ?thesis
      using Some by (simp add: submit_success quizAttempt_update_def)
  next
    case False
    then show ?thesis
      using Some by (cases "studentId a = sid") (simp_all add: submit_forbidden submit_completed)
  qed
qed

lemma length_filter_map_le:
  assumes "\<And>x. x \<in> set xs \<Longrightarrow> P (f x) \<Longrightarrow> P x"
  shows "length (filter P (map f xs)) \<le> length (filter P xs)"
  using assms by (induction xs) auto

lemma exec_in_progress_le:
  assumes "\<forall>q s. length (in_progress q s st) \<le> 1"
  shows "length (in_progress q s (exec op st)) \<le> 1"
proof (cases op)
  case (Start env qid sid)
  from exec_Start_attempts [of env qid sid st] show ?thesis
  proof
    assume "attempts (exec (Start env qid sid) st) = attempts st"
    with assms Start show ?thesis by (simp add: in_progress_def)
  next
    assume h: "in_progress qid sid st = [] \<and>
      attempts (exec (Start env qid sid) st) =
        attempts st @ [new_attempt env qid sid (sum_list (map points (quiz_questions qid st)))]"
    have "length (in_progress q s st) \<le> 1" using assms by blast
    with h Start show ?thesis
      by (auto simp add: in_progress_def new_attempt_def)
  qed
next
  case (Submit env aid ans sid)
  from exec_Submit_attempts [of env aid ans sid st] show ?thesis
  proof
    assume "attempts (exec (Submit env aid ans sid) st) = attempts st"
    with assms Submit show ?thesis by (simp add: in_progress_def)
  next
    assume "\<exists>a. quizAttempt_findUnique aid st = Some a \<and> studentId a = sid \<and> \<not> completed a \<and>
        attempts (exec (Submit env aid ans sid) st) =
          map (\<lambda>x. if id_attempt x = aid
                    then submitted env ans (quiz_questions (quizId a) st) (startedAt a) x else x)
              (attempts st)"
    then obtain a :: IQuizAttempt where
      eq: "attempts (exec (Submit env aid ans sid) st) =
          map (\<lambda>x. if id_attempt x = aid
                    then submitted env ans (quiz_questions (quizId a) st) (startedAt a) x else x)
              (attempts st)"
      by blast
    have "length (in_progress q s (exec (Submit env aid ans sid) st)) \<le> length (in_progress q s st)"
      unfolding in_progress_def eq
      by (rule length_filter_map_le) (auto simp add: submitted_def split: if_splits)
    moreover have "length (in_progress q s st) \<le> 1" using assms by blast
    ultimately show ?thesis using Submit by simp
  qed
qed (use assms in \<open>simp_all add: in_progress_def exec_other_attempts del: exec.simps\<close>)

lemma run_Nil [simp]: "run [] st = st"
  by (simp add: run_def)

lemma run_Cons [simp]: "run (op # ops) st = run ops (exec op st)"
  by (simp add: run_def)

lemma run_in_progress_le:
  "\<forall>q s. length (in_progress q s st) \<le> 1 \<Longrightarrow> length (in_progress q s (run ops st)) \<le> 1"
proof (induction ops arbitrary: st)
  case Nil
  then show ?case by simp
next
  case (Cons op ops)
  have "\<forall>q s. length (in_progress q s (exec op st)) \<le> 1"
    using exec_in_progress_le [OF Cons.prems] by blast
  then show ?case using Cons.IH by simp
qed

lemma find_append_Some: "find P xs = Some a \<Longrightarrow> find P (xs @ ys) = Some a"
  by (induction xs) (auto split: if_splits)

lemma find_map_id:
  assumes "\<And>x. id_attempt (f x) = id_attempt x"
  shows "find (\<lambda>x. id_attempt x = aid) (map f xs) = map_option f (find (\<lambda>x. id_attempt x = aid) xs)"
  using assms by (induction xs) auto

lemma id_attempt_submitted [simp]: "id_attempt (submitted env ans qs t x) = id_attempt x"
  by (simp add: submitted_def)

lemma findUnique_exec_Submit:
  assumes "quizAttempt_findUnique aid st = Some a"
  shows "quizAttempt_findUnique aid (exec (Submit env aid' ans sid) st) = Some a \<or>
         (aid' = aid \<and> studentId a = sid \<and> \<not> completed a \<and>
          quizAttempt_findUnique aid (exec (Submit env aid' ans sid) st) =
            Some (submitted env ans (quiz_questions (quizId a) st) (startedAt a) a))"
proof -
  from exec_Submit_attempts [of env aid' ans sid st] show ?thesis
  proof
    assume "attempts (exec (Submit env aid' ans sid) st) = attempts st"
    then show ?thesis using assms by (simp add: quizAttempt_findUnique_def)
  next
    assume "\<exists>b. quizAttempt_findUnique aid' st = Some b \<and> studentId b = sid \<and> \<not> completed b \<and>
        attempts (exec (Submit env aid' ans sid) st) =
          map (\<lambda>x. if id_attempt x = aid'
                    then submitted env ans (quiz_questions (quizId b) st) (startedAt b) x else x)
              (attempts st)"
    then obtain b :: IQuizAttempt where b: "quizAttempt_findUnique aid' st = Some b"
      "studentId b = sid" "\<not> completed b"
      and eq: "attempts (exec (Submit env aid' ans sid) st) =
          map (\<lambda>x. if id_attempt x = aid'
                    then submitted env ans (quiz_questions (quizId b) st) (startedAt b) x else x)
              (attempts st)"
      by blast
    have ida: "id_attempt a = aid"
      using assms by (auto simp add: quizAttempt_findUnique_def dest: find_Some_iff [THEN iffD1])
    have "quizAttempt_findUnique aid (exec (Submit env aid' ans sid) st) =
        map_option (\<lambda>x. if id_attempt x = aid'
                    then submitted env ans (quiz_questions (quizId b) st) (startedAt b) x else x)
          (quizAttempt_findUnique aid st)"
      unfolding quizAttempt_findUnique_def eq
      by (rule find_map_id) simp
    then show ?thesis
      using assms b ida by (cases "aid' = aid") auto
  qed
qed

lemma findUnique_exec_completed:
  assumes "quizAttempt_findUnique aid st = Some a" "completed a"
  shows "quizAttempt_findUnique aid (exec op st) = Some a"
proof (cases op)
  case (Start env qid sid)
  from exec_Start_attempts [of env qid sid st] assms(1) Start show ?thesis
    by (auto simp add: quizAttempt_findUnique_def find_append_Some simp del: exec.simps)
next
  case (Submit env aid' ans sid)
  from findUnique_exec_Submit [OF assms(1), of env aid' ans sid] assms(2) Submit show ?thesis
    by auto
qed (use assms in \<open>simp_all add: quizAttempt_findUnique_def exec_other_attempts del: exec.simps\<close>)

lemma findUnique_run_completed:
  "quizAttempt_findUnique aid st = Some a \<Longrightarrow> completed a \<Longrightarrow>
   quizAttempt_findUnique aid (run ops st) = Some a"
  by (induction ops arbitrary: st) (simp_all add: findUnique_exec_completed)

lemma findUnique_exec_maxScore:
  assumes "quizAttempt_findUnique aid st = Some a"
  shows "\<exists>a'. quizAttempt_findUnique aid (exec op st) = Some a' \<and> maxScore a' = maxScore a \<and>
           quizId a' = quizId a \<and> studentId a' = studentId a \<and> startedAt a' = startedAt a"
proof (cases op)
  case (Start env qid sid)
  from exec_Start_attempts [of env qid sid st] assms(1) Start show ?thesis
    by (auto simp add: quizAttempt_findUnique_def find_append_Some simp del: exec.simps)
next
  case (Submit env aid' ans sid)
  from findUnique_exec_Submit [OF assms(1), of env aid' ans sid] Submit show ?thesis
    by (auto simp add: submitted_def)
qed (use assms in \<open>simp_all add: quizAttempt_findUnique_def exec_other_attempts del: exec.simps\<close>)

lemma findUnique_run_maxScore:
  "quizAttempt_findUnique aid st = Some a \<Longrightarrow>
   \<exists>a'. quizAttempt_findUnique aid (run ops st) = Some a' \<and> maxScore a' = maxScore a \<and>
           quizId a' = quizId a \<and> studentId a' = studentId a \<and> startedAt a' = startedAt a"
proof (induction ops arbitrary: st a)
  case Nil
  then show ?case by simp
next
  case (Cons op ops)
  from findUnique_exec_maxScore [OF Cons.prems, of op] obtain a1 where
    a1: "quizAttempt_findUnique aid (exec op st) = Some a1" "maxScore a1 = maxScore a"
      "quizId a1 = quizId a" "studentId a1 = studentId a" "startedAt a1 = startedAt a"
    by blast
  from Cons.IH [OF a1(1)] a1 show ?case by auto
qed

lemma exec_completed_mono:
  assumes "i < length (attempts st)" "completed (attempts st ! i)"
  shows "i < length (attempts (exec op st)) \<and> completed (attempts (exec op st) ! i)"
proof (cases op)
  case (Start env qid sid)
  from exec_Start_attempts [of env qid sid st] assms Start show ?thesis
    by (auto simp add: nth_append simp del: exec.simps)
next
  case (Submit env aid ans sid)
  from exec_Submit_attempts [of env aid ans sid st] assms Submit show ?thesis
    by (auto simp add: submitted_def simp del: exec.simps)
qed (use assms in \<open>simp_all add: exec_other_attempts del: exec.simps\<close>)

lemma exec_length_attempts:
  assumes "\<forall>env q s. op \<noteq> Start env q s"
  shows "length (attempts (exec op st)) = length (attempts st)"
proof (cases op)
  case (Start env qid sid)
  with assms show ?thesis by blast
next
  case (Submit env aid ans sid)
  from exec_Submit_attempts [of env aid ans sid st] Submit show ?thesis
    by (auto simp del: exec.simps)
qed (simp_all add: exec_other_attempts del: exec.simps)

lemma findFirst_Some_in_progress:
  "quizAttempt_findFirst qid sid st = Some a \<Longrightarrow> in_progress qid sid st \<noteq> []"
  using findFirst_None_iff [of qid sid st] by auto

lemma in_progress_findFirst_Some:
  "in_progress qid sid st \<noteq> [] \<Longrightarrow> \<exists>a. quizAttempt_findFirst qid sid st = Some a"
  using findFirst_None_iff [of qid sid st] by (cases "quizAttempt_findFirst qid sid st") auto

lemma start_error_when_in_progress:
  assumes "in_progress qid sid st \<noteq> []"
  shows "startQuizAttempt env qid sid st =
     (Inl (case quiz_findUnique qid st of
             None \<Rightarrow> CustomError ''Quiz not found'' 404
           | Some qz \<Rightarrow>
               if now env < startTime qz \<or> endTime qz < now env
               then CustomError ''Quiz is not currently active'' 400
               else CustomError ''You already have an active attempt for this quiz'' 400), st)"
  using in_progress_findFirst_Some [OF assms]
  by (auto simp add: startQuizAttempt_def Let_def split: option.splits)

lemma start_success_only_when_none:
  assumes "fst (startQuizAttempt env qid sid st) = Inr r"
  shows "in_progress qid sid st = [] \<and>
     attempts (snd (startQuizAttempt env qid sid st)) =
       attempts st @ [new_attempt env qid sid (sum_list (map points (quiz_questions qid st)))] \<and>
     attemptId r = new_attempt_id env \<and>
     questions_view (quiz r) = map question_to_view (quiz_questions qid st)"
  using assms
  by (auto simp add: startQuizAttempt_def Let_def foldl_points new_attempt_def
      dest: findFirst_Some_in_progress findFirst_None_iff [THEN iffD1]
      split: option.splits if_splits)

lemma question_to_view_answer [simp]: "question_to_view (q\<lparr>answer := s\<rparr>) = question_to_view q"
  by (simp add: question_to_view_def)

lemma with_answers_simps [simp]:
  "quiz_findUnique qid (with_answers f st) = quiz_findUnique qid st"
  "quizAttempt_findFirst qid sid (with_answers f st) = quizAttempt_findFirst qid sid st"
  by (simp_all add: with_answers_def quiz_findUnique_def quizAttempt_findFirst_def)

lemma with_answers_questions:
  "quiz_questions qid (with_answers f st) = map (\<lambda>q. q\<lparr>answer := f q\<rparr>) (quiz_questions qid st)"
  by (simp add: with_answers_def quiz_questions_def filter_map comp_def)

lemma with_answers_view [simp]:
  "map question_to_view (quiz_questions qid (with_answers f st)) =
   map question_to_view (quiz_questions qid st)"
  by (simp add: with_answers_questions comp_def)

lemma with_answers_points [simp]:
  "map points (quiz_questions qid (with_answers f st)) = map points (quiz_questions qid st)"
  by (simp add: with_answers_questions comp_def)

lemma score_loop_cong:
  "(\<And>q. q \<in> set qs \<Longrightarrow> ans (id_question q) = ans' (id_question q)) \<Longrightarrow>
   score_loop ans qs acc = score_loop ans' qs acc"
proof (induction qs arbitrary: acc)
  case Nil
  then show ?case by (cases acc) simp
next
  case (Cons q qs)
  obtain sc qa where acc: "acc = (sc, qa)" by (cases acc)
  have "ans (id_question q) = ans' (id_question q)" using Cons.prems by simp
  moreover have "\<And>acc'. score_loop ans qs acc' = score_loop ans' qs acc'"
    using Cons.IH Cons.prems by simp
  ultimately show ?case by (simp add: acc Let_def)
qed

lemma submit_cong:
  assumes "quizAttempt_findUnique aid st = Some a"
    and "\<And>q. q \<in> set (quiz_questions (quizId a) st) \<Longrightarrow> ans (id_question q) = ans' (id_question q)"
  shows "submitQuizAttempt env aid ans sid st = submitQuizAttempt env aid ans' sid st"
  using assms(1) score_loop_cong [of "quiz_questions (quizId a) st" ans ans' "(0, [])", OF assms(2)]
  by (simp add: submitQuizAttempt_def)

lemma findUnique_update:
  "quizAttempt_findUnique aid st = Some a \<Longrightarrow> (\<And>x. id_attempt (f x) = id_attempt x) \<Longrightarrow>
   quizAttempt_findUnique aid (quizAttempt_update aid f st) = Some (f a)"
proof -
  assume a: "quizAttempt_findUnique aid st = Some a" and f: "\<And>x. id_attempt (f x) = id_attempt x"
  have ida: "id_attempt a = aid"
    using a by (auto simp add: quizAttempt_findUnique_def dest: find_Some_iff [THEN iffD1])
  have "find (\<lambda>x. id_attempt x = aid) (map (\<lambda>x. if id_attempt x = aid then f x else x) (attempts st))
      = map_option (\<lambda>x. if id_attempt x = aid then f x else x) (find (\<lambda>x. id_attempt x = aid) (attempts st))"
    by (rule find_map_id) (simp add: f)
  then show ?thesis
    using a ida by (simp add: quizAttempt_findUnique_def quizAttempt_update_def)
qed

lemma submit_success_stored:
  assumes "quizAttempt_findUnique aid st = Some a" "studentId a = sid" "\<not> completed a"
  shows "quizAttempt_findUnique aid (snd (submitQuizAttempt env aid ans sid st)) =
     Some (submitted env ans (quiz_questions (quizId a) st) (startedAt a) a)"
  by (simp add: submit_success [OF assms] findUnique_update [OF assms(1)])

lemma sum_list_filter_le:
  fixes f :: "'a \<Rightarrow> int"
  assumes "\<And>x. x \<in> set xs \<Longrightarrow> 0 \<le> f x"
  shows "sum_list (map f (filter P xs)) \<le> sum_list (map f xs)"
  using assms by (induction xs) (auto simp add: add_increasing)

lemma scored_le:
  "(\<And>q. q \<in> set qs \<Longrightarrow> 0 \<le> points q) \<Longrightarrow> scored ans qs \<le> sum_list (map points qs)"
  unfolding scored_def by (rule sum_list_filter_le)

lemma startQuizAttempt_two_halves:
  "startQuizAttempt env qid sid st =
     (case start_check env qid sid st of
        Inl e \<Rightarrow> (Inl e, st)
      | Inr read \<Rightarrow> start_insert env qid sid read st)"
  by (simp add: startQuizAttempt_def start_check_def start_insert_def Let_def split: option.splits)
text \<open>The example store, evaluated.\<close>

lemma example_find: "quiz_findUnique ''cquiz00000000000000000000'' example_store = Some example_quiz"
  by (simp add: quiz_findUnique_def example_store_def example_quiz_def)

lemma example_questions:
  "quiz_questions ''cquiz00000000000000000000'' example_store = [example_q1, example_q2]"
  by (simp add: quiz_questions_def example_store_def example_q1_def example_q2_def)

lemma example_findFirst:
  "quizAttempt_findFirst ''cquiz00000000000000000000'' ''student1'' example_store = None"
  by (simp add: quizAttempt_findFirst_def example_store_def)

lemma started_store_eq:
  "started_store =
     \<lparr> quizzes = [example_quiz], questions = [example_q1, example_q2],
       attempts = [\<lparr> id_attempt = ''a1'', quizId = ''cquiz00000000000000000000'',
                     studentId = ''student1'', answers = [], score = 0, maxScore = 3,
                     completed = False, startedAt = 1500, submittedAt = None, timeSpent = None \<rparr>] \<rparr>"
proof -
  have "startTime example_quiz \<le> now (start_at 1500 ''a1'')"
    "now (start_at 1500 ''a1'') \<le> endTime example_quiz"
    by (simp_all add: example_quiz_def start_at_def)
  from startQuizAttempt_success [OF example_find this example_findFirst]
  show ?thesis
    by (simp add: started_store_def example_questions new_attempt_def start_at_def)
       (simp add: example_store_def example_q1_def example_q2_def)
qed

lemma started_store_attempt:
  "quizAttempt_findUnique ''a1'' started_store =
      Some \<lparr> id_attempt = ''a1'', quizId = ''cquiz00000000000000000000'',
             studentId = ''student1'', answers = [], score = 0, maxScore = 3,
             completed = False, startedAt = 1500, submittedAt = None, timeSpent = None \<rparr>"
  by (simp add: started_store_eq quizAttempt_findUnique_def)

lemma started_store_questions:
  "quiz_questions ''cquiz00000000000000000000'' started_store = [example_q1, example_q2]"
  by (simp add: started_store_eq quiz_questions_def example_q1_def example_q2_def)

lemma completed_store_attempt:
  "quizAttempt_findUnique ''a1'' completed_store =
     Some \<lparr> id_attempt = ''a1'', quizId = ''cquiz00000000000000000000'',
            studentId = ''student1'',
            answers = [(''q1'', Some (JString ''4'')), (''q2'', Some (JString ''6''))],
            score = 1, maxScore = 3, completed = True, startedAt = 1500,
            submittedAt = Some 1600, timeSpent = Some 0 \<rparr>"
  unfolding completed_store_def
  by (simp add: submit_success_stored [OF started_store_attempt] started_store_questions)
     (simp add: submitted_def scored_def example_answers_def example_q1_def example_q2_def
        submit_at_def Let_def strict_equals_string_def)

lemma completed_store_attempts:
  "attempts completed_store =
     [\<lparr> id_attempt = ''a1'', quizId = ''cquiz00000000000000000000'',
        studentId = ''student1'',
        answers = [(''q1'', Some (JString ''4'')), (''q2'', Some (JString ''6''))],
        score = 1, maxScore = 3, completed = True, startedAt = 1500,
        submittedAt = Some 1600, timeSpent = Some 0 \<rparr>]"
  unfolding completed_store_def
  by (simp add: submit_success [OF started_store_attempt] started_store_questions
        quizAttempt_update_def)
     (simp add: started_store_eq submitted_def scored_def example_answers_def example_q1_def
        example_q2_def submit_at_def Let_def strict_equals_string_def)

lemma example_q3_valid: "questionCreate_valid example_q3_data"
  by (simp add: questionCreate_valid_def example_q3_data_def is_cuid_def)

lemma started_store_quiz:
  "quiz_findUnique ''cquiz00000000000000000000'' started_store = Some example_quiz"
  by (simp add: started_store_eq quiz_findUnique_def example_quiz_def)

lemma added_store_eq:
  "added_store =
     started_store\<lparr>questions := questions started_store @
       [\<lparr> id_question = ''q3'', quizId_question = ''cquiz00000000000000000000'',
          text_question = ''4 + 5 = ?'', options = [''8'', ''9''], answer = ''9'',
          difficulty = ''hard'', points = 5, createdAt_question = 1550 \<rparr>]\<rparr>"
  unfolding added_store_def addQuestion_def
  using example_q3_valid started_store_quiz
  by (simp add: example_q3_data_def Let_def)

lemma added_store_attempt:
  "quizAttempt_findUnique ''a1'' added_store =
      Some \<lparr> id_attempt = ''a1'', quizId = ''cquiz00000000000000000000'',
             studentId = ''student1'', answers = [], score = 0, maxScore = 3,
             completed = False, startedAt = 1500, submittedAt = None, timeSpent = None \<rparr>"
  using started_store_attempt by (simp add: added_store_eq quizAttempt_findUnique_def)

lemma added_store_questions:
  "quiz_questions ''cquiz00000000000000000000'' added_store =
     [example_q1, example_q2,
      \<lparr> id_question = ''q3'', quizId_question = ''cquiz00000000000000000000'',
          text_question = ''4 + 5 = ?'', options = [''8'', ''9''], answer = ''9'',
          difficulty = ''hard'', points = 5, createdAt_question = 1550 \<rparr>]"
  using started_store_questions by (simp add: added_store_eq quiz_questions_def)

lemma pct_8_3: "percentage_of 8 3 = Finite 267"
  by code_simp

lemma example_start_result:
  "fst (startQuizAttempt (start_at 1500 ''a1'') ''cquiz00000000000000000000'' ''student1'' example_store) =
     Inr \<lparr> attemptId = ''a1'',
           quiz = \<lparr> id_view = id_quiz example_quiz, title_view = title example_quiz,
                    description_view = description example_quiz,
                    durationMins_view = durationMins example_quiz,
                    startTime_view = startTime example_quiz, endTime_view = endTime example_quiz,
                    questions_view = map question_to_view [example_q1, example_q2] \<rparr> \<rparr>"
proof -
  have w: "startTime example_quiz \<le> now (start_at 1500 ''a1'')"
    "now (start_at 1500 ''a1'') \<le> endTime example_quiz"
    by (simp_all add: example_quiz_def start_at_def)
  show ?thesis
    by (simp add: startQuizAttempt_success [OF example_find w example_findFirst] example_questions)
       (simp add: start_at_def)
qed

lemma example_start_check:
  "start_check (start_at t i) ''cquiz00000000000000000000'' ''student1'' example_store =
     (if t < 1000 \<or> 2000 < t then Inl (CustomError ''Quiz is not currently active'' 400)
      else Inr (example_quiz, [example_q1, example_q2]))"
  by (simp add: start_check_def example_find example_findFirst example_questions)
     (simp add: example_quiz_def start_at_def)
section \<open>Lemmas about the number model\<close>


















section \<open>Properties of the attempt lifecycle\<close>

text \<open>
  C6. For a quiz that exists, \<open>startQuizAttempt\<close> fails with the error "Quiz is not
  currently active" (status 400) exactly when the time of the call is outside the closed
  interval from the quiz's start time to its end time; inside the interval it goes on to
  the later checks. In particular it fails so, leaving the store as it was, when the start
  time is in the future and when the end time is in the past.
\<close>

theorem start_time_window:
  "quiz_findUnique qid st = Some qz \<longrightarrow>
     (fst (startQuizAttempt env qid sid st) = Inl (CustomError ''Quiz is not currently active'' 400))
       = (\<not> (startTime qz \<le> now env \<and> now env \<le> endTime qz)) \<and>
     (now env < startTime qz \<longrightarrow>
        startQuizAttempt env qid sid st = (Inl (CustomError ''Quiz is not currently active'' 400), st)) \<and>
     (endTime qz < now env \<longrightarrow>
        startQuizAttempt env qid sid st = (Inl (CustomError ''Quiz is not currently active'' 400), st))"
  by (auto simp add: startQuizAttempt_def Let_def split: option.splits)

theorem start_time_window_witness:
  "fst (startQuizAttempt (start_at 999 ''a1'') ''cquiz00000000000000000000'' ''student1'' example_store)
     = Inl (CustomError ''Quiz is not currently active'' 400) \<and>
   fst (startQuizAttempt (start_at 2001 ''a1'') ''cquiz00000000000000000000'' ''student1'' example_store)
     = Inl (CustomError ''Quiz is not currently active'' 400) \<and>
   fst (startQuizAttempt (start_at 1000 ''a1'') ''cquiz00000000000000000000'' ''student1'' example_store)
     \<noteq> Inl (CustomError ''Quiz is not currently active'' 400) \<and>
   fst (startQuizAttempt (start_at 2000 ''a1'') ''cquiz00000000000000000000'' ''student1'' example_store)
     \<noteq> Inl (CustomError ''Quiz is not currently active'' 400)"
  using example_find
    start_time_window [of "''cquiz00000000000000000000''" example_store example_quiz "start_at 999 ''a1''" "''student1''"]
    start_time_window [of "''cquiz00000000000000000000''" example_store example_quiz "start_at 2001 ''a1''" "''student1''"]
    start_time_window [of "''cquiz00000000000000000000''" example_store example_quiz "start_at 1000 ''a1''" "''student1''"]
    start_time_window [of "''cquiz00000000000000000000''" example_store example_quiz "start_at 2000 ''a1''" "''student1''"]
  by (simp add: start_at_def example_quiz_def)
text \<open>
  C2, as stated, fails: a start while an attempt is in progress is not always refused with
  the error "You already have an active attempt for this quiz". The checks on the quiz come
  first: after the end of the quiz's time window, the student of the example, whose attempt
  is still in progress, is refused with "Quiz is not currently active".
\<close>

theorem start_refused_for_the_window_first:
  "in_progress ''cquiz00000000000000000000'' ''student1'' started_store \<noteq> [] \<and>
   startQuizAttempt (start_at 2500 ''a2'') ''cquiz00000000000000000000'' ''student1'' started_store =
     (Inl (CustomError ''Quiz is not currently active'' 400), started_store) \<and>
   fst (startQuizAttempt (start_at 2500 ''a2'') ''cquiz00000000000000000000'' ''student1''
          started_store) \<noteq>
     Inl (CustomError ''You already have an active attempt for this quiz'' 400)"
proof -
  have act: "in_progress ''cquiz00000000000000000000'' ''student1'' started_store \<noteq> []"
    by (simp add: started_store_eq in_progress_def)
  have late: "now (start_at 2500 ''a2'') < startTime example_quiz \<or>
      endTime example_quiz < now (start_at 2500 ''a2'')"
    by (simp add: example_quiz_def start_at_def)
  from act startQuizAttempt_notActive [OF started_store_quiz late] show ?thesis by simp
qed

text \<open>
  C2, amended. At most one attempt of a student on a quiz is in progress at any time. Every
  operation preserves this, and so does every history of operations run one after another.
  When an attempt is in progress for the pair, \<open>startQuizAttempt\<close> fails and leaves the
  store as it was: with "Quiz not found" when the quiz does not exist, with "Quiz is not
  currently active" when the call is outside the quiz's time window, and with "You already
  have an active attempt for this quiz" otherwise. A successful start found no attempt in
  progress and appends exactly the new one. No operation other than a start changes the
  number of attempts, and no operation turns a completed attempt back into one in progress.
\<close>

theorem one_in_progress_attempt:
  "((\<forall>q s. length (in_progress q s st) \<le> 1) \<longrightarrow>
      (\<forall>q s. length (in_progress q s (exec op st)) \<le> 1) \<and>
      (\<forall>q s. length (in_progress q s (run ops st)) \<le> 1)) \<and>
   (in_progress qid sid st \<noteq> [] \<longrightarrow>
      startQuizAttempt env qid sid st =
        (Inl (case quiz_findUnique qid st of
                None \<Rightarrow> CustomError ''Quiz not found'' 404
              | Some qz \<Rightarrow>
                  if now env < startTime qz \<or> endTime qz < now env
                  then CustomError ''Quiz is not currently active'' 400
                  else CustomError ''You already have an active attempt for this quiz'' 400),
         st)) \<and>
   (fst (startQuizAttempt env qid sid st) = Inr r \<longrightarrow>
      in_progress qid sid st = [] \<and>
      attempts (snd (startQuizAttempt env qid sid st)) =
        attempts st @ [new_attempt env qid sid (sum_list (map points (quiz_questions qid st)))]) \<and>
   ((\<forall>env' q s. op \<noteq> Start env' q s) \<longrightarrow> length (attempts (exec op st)) = length (attempts st)) \<and>
   (\<forall>i < length (attempts st). completed (attempts st ! i) \<longrightarrow>
      i < length (attempts (exec op st)) \<and> completed (attempts (exec op st) ! i))"
  using exec_in_progress_le [of st _ _ op] run_in_progress_le [of st _ _ ops]
    start_error_when_in_progress [of qid sid st env]
    start_success_only_when_none [of env qid sid st r]
    exec_length_attempts [of op st] exec_completed_mono [of _ st op]
  by blast

theorem one_in_progress_attempt_witness:
  "(\<forall>q s. length (in_progress q s started_store) \<le> 1) \<and>
   in_progress ''cquiz00000000000000000000'' ''student1'' started_store \<noteq> [] \<and>
   startQuizAttempt (start_at 1600 ''a2'') ''cquiz00000000000000000000'' ''student1'' started_store =
     (Inl (CustomError ''You already have an active attempt for this quiz'' 400), started_store) \<and>
   startQuizAttempt (start_at 2500 ''a2'') ''cquiz00000000000000000000'' ''student1'' started_store =
     (Inl (CustomError ''Quiz is not currently active'' 400), started_store) \<and>
   (\<forall>q s. length (in_progress q s
       (exec (Start (start_at 1600 ''a2'') ''cquiz00000000000000000000'' ''student1'') started_store)) \<le> 1) \<and>
   in_progress ''cquiz00000000000000000000'' ''student1'' example_store = [] \<and>
   attempts started_store =
     attempts example_store @
       [new_attempt (start_at 1500 ''a1'') ''cquiz00000000000000000000'' ''student1'' 3] \<and>
   length (attempts (exec (Submit (submit_at 1700) ''a1'' example_answers ''student1'') completed_store))
     = length (attempts completed_store) \<and>
   completed (attempts completed_store ! 0) \<and>
   completed (attempts (exec (Submit (submit_at 1700) ''a1'' example_answers ''student2'')
     completed_store) ! 0)"
proof -
  have inv: "\<forall>q s. length (in_progress q s started_store) \<le> 1"
    by (simp add: started_store_eq in_progress_def)
  have act: "in_progress ''cquiz00000000000000000000'' ''student1'' started_store \<noteq> []"
    by (simp add: started_store_eq in_progress_def)
  have e1: "(case quiz_findUnique ''cquiz00000000000000000000'' started_store of
                None \<Rightarrow> CustomError ''Quiz not found'' 404
              | Some qz \<Rightarrow>
                  if now (start_at 1600 ''a2'') < startTime qz \<or> endTime qz < now (start_at 1600 ''a2'')
                  then CustomError ''Quiz is not currently active'' 400
                  else CustomError ''You already have an active attempt for this quiz'' 400) =
      CustomError ''You already have an active attempt for this quiz'' 400"
    by (simp add: started_store_quiz) (simp add: example_quiz_def start_at_def)
  have e2: "(case quiz_findUnique ''cquiz00000000000000000000'' started_store of
                None \<Rightarrow> CustomError ''Quiz not found'' 404
              | Some qz \<Rightarrow>
                  if now (start_at 2500 ''a2'') < startTime qz \<or> endTime qz < now (start_at 2500 ''a2'')
                  then CustomError ''Quiz is not currently active'' 400
                  else CustomError ''You already have an active attempt for this quiz'' 400) =
      CustomError ''Quiz is not currently active'' 400"
    by (simp add: started_store_quiz) (simp add: example_quiz_def start_at_def)
  from one_in_progress_attempt
    [of started_store "Start (start_at 1600 ''a2'') ''cquiz00000000000000000000'' ''student1''"
        "[]" "''cquiz00000000000000000000''" "''student1''" "start_at 1600 ''a2''"]
    inv act
  have 1: "startQuizAttempt (start_at 1600 ''a2'') ''cquiz00000000000000000000'' ''student1'' started_store =
     (Inl (CustomError ''You already have an active attempt for this quiz'' 400), started_store) \<and>
   (\<forall>q s. length (in_progress q s
       (exec (Start (start_at 1600 ''a2'') ''cquiz00000000000000000000'' ''student1'') started_store)) \<le> 1)"
    unfolding e1 by blast
  from one_in_progress_attempt
    [of started_store _ _ "''cquiz00000000000000000000''" "''student1''" "start_at 2500 ''a2''"]
    act
  have 5: "startQuizAttempt (start_at 2500 ''a2'') ''cquiz00000000000000000000'' ''student1'' started_store =
     (Inl (CustomError ''Quiz is not currently active'' 400), started_store)"
    unfolding e2 by blast
  let ?r = "\<lparr> attemptId = ''a1'',
           quiz = \<lparr> id_view = id_quiz example_quiz, title_view = title example_quiz,
                    description_view = description example_quiz,
                    durationMins_view = durationMins example_quiz,
                    startTime_view = startTime example_quiz, endTime_view = endTime example_quiz,
                    questions_view = map question_to_view [example_q1, example_q2] \<rparr> \<rparr>"
  have pts: "sum_list (map points (quiz_questions ''cquiz00000000000000000000'' example_store)) = 3"
    by (simp add: example_questions example_q1_def example_q2_def)
  from one_in_progress_attempt
    [of example_store _ _ "''cquiz00000000000000000000''" "''student1''" "start_at 1500 ''a1''" ?r]
    example_start_result
  have 2: "in_progress ''cquiz00000000000000000000'' ''student1'' example_store = [] \<and>
   attempts started_store =
     attempts example_store @
       [new_attempt (start_at 1500 ''a1'') ''cquiz00000000000000000000'' ''student1'' 3]"
    by (simp add: started_store_def pts)
  have c0: "0 < length (attempts completed_store) \<and> completed (attempts completed_store ! 0)"
    by (simp add: completed_store_attempts)
  have ns: "\<forall>env' q s. Submit (submit_at 1700) ''a1'' example_answers ''student1'' \<noteq> Start env' q s"
    by simp
  from one_in_progress_attempt
    [of completed_store "Submit (submit_at 1700) ''a1'' example_answers ''student1''"] ns
  have 3: "length (attempts (exec (Submit (submit_at 1700) ''a1'' example_answers ''student1'') completed_store))
     = length (attempts completed_store)"
    by blast
  from one_in_progress_attempt
    [of completed_store "Submit (submit_at 1700) ''a1'' example_answers ''student2''"] c0
  have 4: "completed (attempts (exec (Submit (submit_at 1700) ''a1'' example_answers ''student2'')
     completed_store) ! 0)"
    by blast
  from inv act 1 5 2 3 4 c0 show ?thesis by blast
qed
text \<open>
  C7. What a successful start returns is the id of the new attempt and a view of the quiz
  whose questions carry the id, the text, the options, the difficulty and the points of
  the stored questions and nothing else. The outcome of a start is the same whatever the
  answers of the stored questions are.
\<close>

theorem start_view_without_answers:
  "fst (startQuizAttempt env qid sid (with_answers f st)) = fst (startQuizAttempt env qid sid st) \<and>
   (fst (startQuizAttempt env qid sid st) = Inr r \<longrightarrow>
      attemptId r = new_attempt_id env \<and>
      id_attempt (last (attempts (snd (startQuizAttempt env qid sid st)))) = attemptId r \<and>
      questions_view (quiz r) =
        map (\<lambda>q. \<lparr> id_qview = id_question q, text_qview = text_question q,
                     options_qview = options q, difficulty_qview = difficulty q,
                     points_qview = points q \<rparr>) (quiz_questions qid st))"
proof -
  have 1: "fst (startQuizAttempt env qid sid (with_answers f st)) = fst (startQuizAttempt env qid sid st)"
    by (simp add: startQuizAttempt_def Let_def foldl_points split: option.splits)
  have 2: "fst (startQuizAttempt env qid sid st) = Inr r \<longrightarrow>
      attemptId r = new_attempt_id env \<and>
      id_attempt (last (attempts (snd (startQuizAttempt env qid sid st)))) = attemptId r \<and>
      questions_view (quiz r) =
        map (\<lambda>q. \<lparr> id_qview = id_question q, text_qview = text_question q,
                     options_qview = options q, difficulty_qview = difficulty q,
                     points_qview = points q \<rparr>) (quiz_questions qid st)"
    using start_success_only_when_none [of env qid sid st r]
    by (auto simp add: new_attempt_def question_to_view_def)
  from 1 2 show ?thesis by blast
qed

theorem start_view_without_answers_witness:
  "fst (startQuizAttempt (start_at 1500 ''a1'') ''cquiz00000000000000000000'' ''student1'' example_store) =
     Inr \<lparr> attemptId = ''a1'',
           quiz = \<lparr> id_view = ''cquiz00000000000000000000'', title_view = ''Arithmetic'',
                    description_view = None, durationMins_view = 30,
                    startTime_view = 1000, endTime_view = 2000,
                    questions_view =
                      [\<lparr> id_qview = ''q1'', text_qview = ''2 + 2 = ?'', options_qview = [''3'', ''4''],
                         difficulty_qview = ''easy'', points_qview = 1 \<rparr>,
                       \<lparr> id_qview = ''q2'', text_qview = ''2 + 3 = ?'', options_qview = [''5'', ''6''],
                         difficulty_qview = ''easy'', points_qview = 2 \<rparr>] \<rparr> \<rparr> \<and>
   fst (startQuizAttempt (start_at 1500 ''a1'') ''cquiz00000000000000000000'' ''student1''
          (with_answers (\<lambda>q. ''x'') example_store)) =
   fst (startQuizAttempt (start_at 1500 ''a1'') ''cquiz00000000000000000000'' ''student1'' example_store)"
proof -
  have w: "startTime example_quiz \<le> now (start_at 1500 ''a1'')"
    "now (start_at 1500 ''a1'') \<le> endTime example_quiz"
    by (simp_all add: example_quiz_def start_at_def)
  have r: "fst (startQuizAttempt (start_at 1500 ''a1'') ''cquiz00000000000000000000'' ''student1'' example_store) =
     Inr \<lparr> attemptId = ''a1'',
           quiz = \<lparr> id_view = ''cquiz00000000000000000000'', title_view = ''Arithmetic'',
                    description_view = None, durationMins_view = 30,
                    startTime_view = 1000, endTime_view = 2000,
                    questions_view =
                      [\<lparr> id_qview = ''q1'', text_qview = ''2 + 2 = ?'', options_qview = [''3'', ''4''],
                         difficulty_qview = ''easy'', points_qview = 1 \<rparr>,
                       \<lparr> id_qview = ''q2'', text_qview = ''2 + 3 = ?'', options_qview = [''5'', ''6''],
                         difficulty_qview = ''easy'', points_qview = 2 \<rparr>] \<rparr> \<rparr>"
    by (simp add: startQuizAttempt_success [OF example_find w example_findFirst] example_questions)
       (simp add: example_quiz_def example_q1_def example_q2_def question_to_view_def start_at_def)
  from start_view_without_answers
    [of "start_at 1500 ''a1''" "''cquiz00000000000000000000''" "''student1''" "\<lambda>q. ''x''" example_store]
    r show ?thesis by simp
qed
text \<open>
  C4. A submission of an attempt in progress by its student scores the sum of the points
  of those questions of the quiz whose answer the caller's object maps, under the
  question's id, to a string with exactly the characters of the question's answer. Each
  question's value is recorded as given, an absent one as undefined, which matches no
  answer; keys that are not ids of questions of the quiz change nothing and are not
  recorded. On the specification's example (points 1 with answer 4, points 2 with answer 5,
  submitted answers 4 and 6) the score is 1, the maximum 3 and the percentage 33.
\<close>

theorem submit_score:
  "(quizAttempt_findUnique aid st = Some a \<and> studentId a = sid \<and> \<not> completed a \<longrightarrow>
      (\<exists>r a'. fst (submitQuizAttempt env aid ans sid st) = Inr r \<and>
         quizAttempt_findUnique aid (snd (submitQuizAttempt env aid ans sid st)) = Some a' \<and>
         score_result r =
           sum_list (map points
             (filter (\<lambda>q. ans (id_question q) = Some (JString (answer q)))
                (quiz_questions (quizId a) st))) \<and>
         score a' = score_result r \<and> completed a' \<and>
         maxScore_result r = maxScore a \<and>
         percentage r = percentage_of (score_result r) (maxScore a) \<and>
         (\<forall>k. map_of (answers a') k =
            (if k \<in> id_question ` set (quiz_questions (quizId a) st) then Some (ans k) else None))) \<and>
      ((\<forall>q \<in> set (quiz_questions (quizId a) st). ans (id_question q) = ans' (id_question q)) \<longrightarrow>
         submitQuizAttempt env aid ans' sid st = submitQuizAttempt env aid ans sid st)) \<and>
   (\<exists>r. fst (submitQuizAttempt (submit_at 1600) ''a1'' example_answers ''student1'' started_store) = Inr r \<and>
        score_result r = 1 \<and> maxScore_result r = 3 \<and> percentage r = Finite 33)"
proof -
  have general: "\<exists>r a'. fst (submitQuizAttempt env aid ans sid st) = Inr r \<and>
         quizAttempt_findUnique aid (snd (submitQuizAttempt env aid ans sid st)) = Some a' \<and>
         score_result r =
           sum_list (map points
             (filter (\<lambda>q. ans (id_question q) = Some (JString (answer q)))
                (quiz_questions (quizId a) st))) \<and>
         score a' = score_result r \<and> completed a' \<and>
         maxScore_result r = maxScore a \<and>
         percentage r = percentage_of (score_result r) (maxScore a) \<and>
         (\<forall>k. map_of (answers a') k =
            (if k \<in> id_question ` set (quiz_questions (quizId a) st) then Some (ans k) else None))"
    if h: "quizAttempt_findUnique aid st = Some a" "studentId a = sid" "\<not> completed a"
    using submit_success [OF h, of env ans] submit_success_stored [OF h, of env ans]
      score_loop_answers [of ans "quiz_questions (quizId a) st" 0 "[]"]
    by (simp add: submitted_def scored_def)
  have cong: "submitQuizAttempt env aid ans' sid st = submitQuizAttempt env aid ans sid st"
    if "quizAttempt_findUnique aid st = Some a"
      "\<forall>q \<in> set (quiz_questions (quizId a) st). ans (id_question q) = ans' (id_question q)"
    using submit_cong [of aid st a ans' ans env sid] that by simp
  have fnd: "quizAttempt_findUnique ''a1'' started_store =
      Some \<lparr> id_attempt = ''a1'', quizId = ''cquiz00000000000000000000'',
             studentId = ''student1'', answers = [], score = 0, maxScore = 3,
             completed = False, startedAt = 1500, submittedAt = None, timeSpent = None \<rparr>"
    by (simp add: started_store_eq quizAttempt_findUnique_def)
  have qs: "quiz_questions ''cquiz00000000000000000000'' started_store = [example_q1, example_q2]"
    by (simp add: started_store_eq quiz_questions_def example_q1_def example_q2_def)
  have sc: "scored example_answers [example_q1, example_q2] = 1"
    by (simp add: scored_def example_answers_def example_q1_def example_q2_def)
  have pct: "percentage_of 1 3 = Finite 33"
    by code_simp
  have example: "\<exists>r. fst (submitQuizAttempt (submit_at 1600) ''a1'' example_answers ''student1'' started_store) = Inr r \<and>
        score_result r = 1 \<and> maxScore_result r = 3 \<and> percentage r = Finite 33"
    using submit_success [OF fnd, of "''student1''" "submit_at 1600" example_answers]
    by (simp add: qs sc pct)
  from general cong example show ?thesis by blast
qed

theorem submit_score_witness:
  "(\<exists>a r a'.
     quizAttempt_findUnique ''a1'' started_store = Some a \<and> studentId a = ''student1'' \<and>
     \<not> completed a \<and>
     fst (submitQuizAttempt (submit_at 1600) ''a1''
            [''q1'' \<mapsto> JString ''4'', ''zz'' \<mapsto> JString ''5''] ''student1'' started_store) = Inr r \<and>
     quizAttempt_findUnique ''a1''
       (snd (submitQuizAttempt (submit_at 1600) ''a1''
            [''q1'' \<mapsto> JString ''4'', ''zz'' \<mapsto> JString ''5''] ''student1'' started_store)) = Some a' \<and>
     score_result r = 1 \<and> score a' = 1 \<and> completed a' \<and>
     map_of (answers a') ''q1'' = Some (Some (JString ''4'')) \<and>
     map_of (answers a') ''q2'' = Some None \<and>
     map_of (answers a') ''zz'' = None) \<and>
   submitQuizAttempt (submit_at 1600) ''a1'' [''q1'' \<mapsto> JString ''4''] ''student1'' started_store =
   submitQuizAttempt (submit_at 1600) ''a1''
     [''q1'' \<mapsto> JString ''4'', ''zz'' \<mapsto> JString ''5''] ''student1'' started_store"
proof -
  let ?a = "\<lparr> id_attempt = ''a1'', quizId = ''cquiz00000000000000000000'',
           studentId = ''student1'', answers = [], score = 0, maxScore = 3,
           completed = False, startedAt = 1500, submittedAt = None, timeSpent = None \<rparr>"
  let ?ans = "[''q1'' \<mapsto> JString ''4'', ''zz'' \<mapsto> JString ''5'']"
  let ?ans' = "[''q1'' \<mapsto> JString ''4'']"
  have pre: "quizAttempt_findUnique ''a1'' started_store = Some ?a \<and> studentId ?a = ''student1'' \<and>
      \<not> completed ?a"
    by (simp add: started_store_attempt)
  have qs: "quiz_questions (quizId ?a) started_store = [example_q1, example_q2]"
    by (simp add: started_store_questions)
  have same: "\<forall>q \<in> set (quiz_questions (quizId ?a) started_store).
      ?ans (id_question q) = ?ans' (id_question q)"
    unfolding qs by (simp add: example_q1_def example_q2_def)
  note inst = submit_score [of "''a1''" started_store ?a "''student1''" "submit_at 1600" ?ans ?ans']
  from inst pre
  obtain r a' where
    r: "fst (submitQuizAttempt (submit_at 1600) ''a1'' ?ans ''student1'' started_store) = Inr r"
    and a': "quizAttempt_findUnique ''a1''
       (snd (submitQuizAttempt (submit_at 1600) ''a1'' ?ans ''student1'' started_store)) = Some a'"
    and sc: "score_result r =
           sum_list (map points
             (filter (\<lambda>q. ?ans (id_question q) = Some (JString (answer q)))
                (quiz_questions (quizId ?a) started_store)))"
    and sa: "score a' = score_result r" "completed a'"
    and rec: "\<forall>k. map_of (answers a') k =
            (if k \<in> id_question ` set (quiz_questions (quizId ?a) started_store)
             then Some (?ans k) else None)"
    by blast
  have s1: "score_result r = 1"
    unfolding sc qs by (simp add: example_q1_def example_q2_def)
  have m1: "map_of (answers a') ''q1'' = Some (Some (JString ''4''))"
    and m2: "map_of (answers a') ''q2'' = Some None"
    and m3: "map_of (answers a') ''zz'' = None"
    using rec unfolding qs by (simp_all add: example_q1_def example_q2_def)
  from inst pre same
  have eq: "submitQuizAttempt (submit_at 1600) ''a1'' ?ans' ''student1'' started_store =
      submitQuizAttempt (submit_at 1600) ''a1'' ?ans ''student1'' started_store"
    by blast
  from pre r a' s1 sa m1 m2 m3 eq show ?thesis by auto
qed
text \<open>
  C3, as stated, fails: a submission on a completed attempt by a student other than the
  attempt's own is refused for the ownership, checked first, with the error "Unauthorized
  access to quiz attempt" (status 403), not with "Quiz attempt already completed".
\<close>

theorem submit_completed_by_other_student:
  "map_option completed (quizAttempt_findUnique ''a1'' completed_store) = Some True \<and>
   fst (submitQuizAttempt (submit_at 1700) ''a1'' example_answers ''student2'' completed_store) =
     Inl (CustomError ''Unauthorized access to quiz attempt'' 403) \<and>
   fst (submitQuizAttempt (submit_at 1700) ''a1'' example_answers ''student2'' completed_store) \<noteq>
     Inl (CustomError ''Quiz attempt already completed'' 400)"
  by (simp add: submit_forbidden [OF completed_store_attempt] completed_store_attempt)

text \<open>
  C3, amended. A submission on a completed attempt always fails and leaves the store
  exactly as it was: with the error "Quiz attempt already completed" when the caller is the
  attempt's student, with "Unauthorized access to quiz attempt" otherwise. When the
  operations run one after another, each on the store the one before it left, a completed
  attempt is found unchanged after every history of them, and the attempt a successful
  submission has completed is found as that submission wrote it after every history that
  follows.
\<close>

theorem submit_completed_denied:
  "(quizAttempt_findUnique aid st = Some a \<and> completed a \<longrightarrow>
      submitQuizAttempt env aid ans sid st =
        (Inl (if studentId a = sid then CustomError ''Quiz attempt already completed'' 400
              else CustomError ''Unauthorized access to quiz attempt'' 403), st) \<and>
      quizAttempt_findUnique aid (run ops st) = Some a) \<and>
   (quizAttempt_findUnique aid st = Some a \<and> studentId a = sid \<and> \<not> completed a \<longrightarrow>
      (\<exists>a'. quizAttempt_findUnique aid (snd (submitQuizAttempt env aid ans sid st)) = Some a' \<and>
            completed a' \<and>
            quizAttempt_findUnique aid (run ops (snd (submitQuizAttempt env aid ans sid st))) = Some a'))"
proof -
  have 1: "submitQuizAttempt env aid ans sid st =
        (Inl (if studentId a = sid then CustomError ''Quiz attempt already completed'' 400
              else CustomError ''Unauthorized access to quiz attempt'' 403), st)"
    if "quizAttempt_findUnique aid st = Some a" "completed a"
    using that by (simp add: submit_completed submit_forbidden)
  have 2: "\<exists>a'. quizAttempt_findUnique aid (snd (submitQuizAttempt env aid ans sid st)) = Some a' \<and>
            completed a' \<and>
            quizAttempt_findUnique aid (run ops (snd (submitQuizAttempt env aid ans sid st))) = Some a'"
    if h: "quizAttempt_findUnique aid st = Some a" "studentId a = sid" "\<not> completed a"
  proof -
    let ?a' = "submitted env ans (quiz_questions (quizId a) st) (startedAt a) a"
    have f: "quizAttempt_findUnique aid (snd (submitQuizAttempt env aid ans sid st)) = Some ?a'"
      by (rule submit_success_stored [OF h])
    have c: "completed ?a'" by (simp add: submitted_def)
    from f c findUnique_run_completed [OF f c] show ?thesis by blast
  qed
  from 1 2 findUnique_run_completed [of aid st a ops] show ?thesis by blast
qed

theorem submit_completed_denied_witness:
  "submitQuizAttempt (submit_at 1700) ''a1'' example_answers ''student1'' completed_store =
     (Inl (CustomError ''Quiz attempt already completed'' 400), completed_store) \<and>
   submitQuizAttempt (submit_at 1700) ''a1'' example_answers ''student2'' completed_store =
     (Inl (CustomError ''Unauthorized access to quiz attempt'' 403), completed_store) \<and>
   map_option score (quizAttempt_findUnique ''a1''
     (run [Submit (submit_at 1700) ''a1'' example_answers ''student1'',
           Start (start_at 1800 ''a2'') ''cquiz00000000000000000000'' ''student1''] completed_store)) = Some 1 \<and>
   map_option completed (quizAttempt_findUnique ''a1'' completed_store) = Some True \<and>
   map_option completed (quizAttempt_findUnique ''a1'' started_store) = Some False \<and>
   (\<exists>a'. quizAttempt_findUnique ''a1'' completed_store = Some a' \<and> completed a' \<and>
      quizAttempt_findUnique ''a1''
        (run [Submit (submit_at 1700) ''a1'' all_correct ''student1''] completed_store) = Some a')"
proof -
  let ?a = "\<lparr> id_attempt = ''a1'', quizId = ''cquiz00000000000000000000'',
            studentId = ''student1'',
            answers = [(''q1'', Some (JString ''4'')), (''q2'', Some (JString ''6''))],
            score = 1, maxScore = 3, completed = True, startedAt = 1500,
            submittedAt = Some 1600, timeSpent = Some 0 \<rparr>"
  let ?b = "\<lparr> id_attempt = ''a1'', quizId = ''cquiz00000000000000000000'',
             studentId = ''student1'', answers = [], score = 0, maxScore = 3,
             completed = False, startedAt = 1500, submittedAt = None, timeSpent = None \<rparr>"
  let ?ops = "[Submit (submit_at 1700) ''a1'' example_answers ''student1'',
           Start (start_at 1800 ''a2'') ''cquiz00000000000000000000'' ''student1'']"
  have pre: "quizAttempt_findUnique ''a1'' completed_store = Some ?a \<and> completed ?a"
    by (simp add: completed_store_attempt)
  from submit_completed_denied
     [of "''a1''" completed_store ?a "submit_at 1700" example_answers "''student1''" ?ops] pre
  have a: "submitQuizAttempt (submit_at 1700) ''a1'' example_answers ''student1'' completed_store =
     (Inl (CustomError ''Quiz attempt already completed'' 400), completed_store)"
    and c: "quizAttempt_findUnique ''a1'' (run ?ops completed_store) = Some ?a"
    by (simp_all del: run_Cons run_Nil)
  from submit_completed_denied
     [of "''a1''" completed_store ?a "submit_at 1700" example_answers "''student2''" ?ops] pre
  have b: "submitQuizAttempt (submit_at 1700) ''a1'' example_answers ''student2'' completed_store =
     (Inl (CustomError ''Unauthorized access to quiz attempt'' 403), completed_store)"
    by (simp del: run_Cons run_Nil)
  have pre0: "quizAttempt_findUnique ''a1'' started_store = Some ?b \<and> studentId ?b = ''student1'' \<and>
      \<not> completed ?b"
    by (simp add: started_store_attempt)
  from submit_completed_denied
     [of "''a1''" started_store ?b "submit_at 1600" example_answers "''student1''"
         "[Submit (submit_at 1700) ''a1'' all_correct ''student1'']"] pre0
  have d: "\<exists>a'. quizAttempt_findUnique ''a1'' completed_store = Some a' \<and> completed a' \<and>
      quizAttempt_findUnique ''a1''
        (run [Submit (submit_at 1700) ''a1'' all_correct ''student1''] completed_store) = Some a'"
    unfolding completed_store_def by blast
  from a b c d pre pre0 show ?thesis by (simp del: run_Cons run_Nil)
qed
text \<open>
  The maximum of an attempt is fixed when the attempt starts: a successful start stores the
  sum of the points of the quiz's questions at that time, and no history of operations
  changes the maximum of a stored attempt. A submission is scored over the questions the
  quiz has when it is submitted, so the score is at most the maximum when the maximum is the
  sum of the points of the questions present at the submission and no points are negative.
\<close>

lemma maxScore_fixed_at_start:
  "(fst (startQuizAttempt env qid sid st) = Inr r \<longrightarrow>
      (\<exists>a. attempts (snd (startQuizAttempt env qid sid st)) = attempts st @ [a] \<and>
           id_attempt a = attemptId r \<and>
           maxScore a = sum_list (map points (quiz_questions qid st)))) \<and>
   (quizAttempt_findUnique aid st = Some a \<longrightarrow>
      (\<exists>a'. quizAttempt_findUnique aid (run ops st) = Some a' \<and> maxScore a' = maxScore a)) \<and>
   (quizAttempt_findUnique aid st = Some a \<and> studentId a = sid \<and> \<not> completed a \<longrightarrow>
      (\<exists>r'. fst (submitQuizAttempt senv aid ans sid st) = Inr r' \<and>
            maxScore_result r' = maxScore a \<and>
            score_result r' =
              sum_list (map points
                (filter (\<lambda>q. ans (id_question q) = Some (JString (answer q)))
                   (quiz_questions (quizId a) st))) \<and>
            (maxScore a = sum_list (map points (quiz_questions (quizId a) st)) \<and>
             (\<forall>q \<in> set (quiz_questions (quizId a) st). 0 \<le> points q) \<longrightarrow>
               score_result r' \<le> maxScore_result r')))"
proof -
  have 1: "\<exists>a. attempts (snd (startQuizAttempt env qid sid st)) = attempts st @ [a] \<and>
           id_attempt a = attemptId r \<and>
           maxScore a = sum_list (map points (quiz_questions qid st))"
    if "fst (startQuizAttempt env qid sid st) = Inr r"
    using start_success_only_when_none [OF that] by (simp add: new_attempt_def)
  have 2: "\<exists>a'. quizAttempt_findUnique aid (run ops st) = Some a' \<and> maxScore a' = maxScore a"
    if "quizAttempt_findUnique aid st = Some a"
    using findUnique_run_maxScore [OF that, of ops] by blast
  have 3: "\<exists>r'. fst (submitQuizAttempt senv aid ans sid st) = Inr r' \<and>
            maxScore_result r' = maxScore a \<and>
            score_result r' =
              sum_list (map points
                (filter (\<lambda>q. ans (id_question q) = Some (JString (answer q)))
                   (quiz_questions (quizId a) st))) \<and>
            (maxScore a = sum_list (map points (quiz_questions (quizId a) st)) \<and>
             (\<forall>q \<in> set (quiz_questions (quizId a) st). 0 \<le> points q) \<longrightarrow>
               score_result r' \<le> maxScore_result r')"
    if h: "quizAttempt_findUnique aid st = Some a" "studentId a = sid" "\<not> completed a"
    using submit_success [OF h, of senv ans] scored_le [of "quiz_questions (quizId a) st" ans]
    by (auto simp add: scored_def)
  from 1 2 3 show ?thesis by blast
qed

lemma maxScore_fixed_at_start_example:
  "(\<exists>a. attempts started_store = attempts example_store @ [a] \<and> id_attempt a = ''a1'' \<and> maxScore a = 3) \<and>
   map_option maxScore (quizAttempt_findUnique ''a1''
     (run [AddQuestion \<lparr> new_question_id = ''q3'', createdAt_now = 1550 \<rparr> example_q3_data]
        started_store)) = Some 3 \<and>
   (\<exists>r'. fst (submitQuizAttempt (submit_at 1600) ''a1'' all_correct ''student1'' started_store) = Inr r' \<and>
         maxScore_result r' = 3 \<and> score_result r' \<le> maxScore_result r')"
proof -
  let ?a = "\<lparr> id_attempt = ''a1'', quizId = ''cquiz00000000000000000000'',
             studentId = ''student1'', answers = [], score = 0, maxScore = 3,
             completed = False, startedAt = 1500, submittedAt = None, timeSpent = None \<rparr>"
  let ?ops = "[AddQuestion \<lparr> new_question_id = ''q3'', createdAt_now = 1550 \<rparr> example_q3_data]"
  have pts: "sum_list (map points (quiz_questions ''cquiz00000000000000000000'' example_store)) = 3"
    by (simp add: example_questions example_q1_def example_q2_def)
  let ?r = "\<lparr> attemptId = ''a1'',
           quiz = \<lparr> id_view = id_quiz example_quiz, title_view = title example_quiz,
                    description_view = description example_quiz,
                    durationMins_view = durationMins example_quiz,
                    startTime_view = startTime example_quiz, endTime_view = endTime example_quiz,
                    questions_view = map question_to_view [example_q1, example_q2] \<rparr> \<rparr>"
  from maxScore_fixed_at_start
    [of "start_at 1500 ''a1''" "''cquiz00000000000000000000''" "''student1''" example_store ?r]
    example_start_result
  have 1: "\<exists>a. attempts started_store = attempts example_store @ [a] \<and> id_attempt a = ''a1'' \<and>
      maxScore a = 3"
    by (simp add: started_store_def pts)
  have pre: "quizAttempt_findUnique ''a1'' started_store = Some ?a \<and> studentId ?a = ''student1'' \<and>
      \<not> completed ?a"
    by (simp add: started_store_attempt)
  have pre2: "maxScore ?a = sum_list (map points (quiz_questions (quizId ?a) started_store)) \<and>
      (\<forall>q \<in> set (quiz_questions (quizId ?a) started_store). 0 \<le> points q)"
    by (simp add: started_store_questions example_q1_def example_q2_def)
  note inst = maxScore_fixed_at_start
    [of _ _ "''student1''" started_store _ "''a1''" ?a ?ops "submit_at 1600" all_correct]
  from inst pre obtain a' where
    "quizAttempt_findUnique ''a1'' (run ?ops started_store) = Some a'" "maxScore a' = maxScore ?a"
    by blast
  then have 2: "map_option maxScore (quizAttempt_findUnique ''a1'' (run ?ops started_store)) = Some 3"
    by (simp del: run_Cons run_Nil)
  from inst pre pre2 obtain r' where
    "fst (submitQuizAttempt (submit_at 1600) ''a1'' all_correct ''student1'' started_store) = Inr r'"
    "maxScore_result r' = maxScore ?a" "score_result r' \<le> maxScore_result r'"
    by blast
  then have 3: "\<exists>r'. fst (submitQuizAttempt (submit_at 1600) ''a1'' all_correct ''student1'' started_store) = Inr r' \<and>
         maxScore_result r' = 3 \<and> score_result r' \<le> maxScore_result r'"
    by auto
  from 1 2 3 show ?thesis by blast
qed

text \<open>
  C5. The maximum of an attempt is the sum of the points of the questions the quiz had when
  the attempt started, a submission should be scored over those same questions, and the
  score should never exceed the maximum. The code keeps no snapshot of the questions:
  \<open>submitQuizAttempt\<close> scores over the questions the quiz has when it is called. The
  attempt of the example is started with two questions (maximum 3); a third question,
  worth 5, is added; the submission is scored over all three, and the score is 8 against
  a maximum of 3, a percentage of 267. Without the added question the same answers score 3.
\<close>

theorem score_exceeds_maxScore:
  "map_option maxScore (quizAttempt_findUnique ''a1'' started_store) = Some 3 \<and>
   map_option maxScore (quizAttempt_findUnique ''a1'' added_store) = Some 3 \<and>
   fst (submitQuizAttempt (submit_at 1600) ''a1'' all_correct ''student1'' added_store) =
     Inr \<lparr> attemptId_result = ''a1'', score_result = 8, maxScore_result = 3,
           percentage = Finite 267, timeSpent_result = Some 0, completed_result = True \<rparr> \<and>
   fst (submitQuizAttempt (submit_at 1600) ''a1'' all_correct ''student1'' started_store) =
     Inr \<lparr> attemptId_result = ''a1'', score_result = 3, maxScore_result = 3,
           percentage = Finite 100, timeSpent_result = Some 0, completed_result = True \<rparr>"
proof -
  have s1: "scored all_correct (quiz_questions ''cquiz00000000000000000000'' added_store) = 8"
    by (simp add: added_store_questions scored_def all_correct_def example_q1_def example_q2_def)
  have s2: "scored all_correct (quiz_questions ''cquiz00000000000000000000'' started_store) = 3"
    by (simp add: started_store_questions scored_def all_correct_def example_q1_def example_q2_def)
  have p2: "percentage_of 3 3 = Finite 100" by code_simp
  show ?thesis
    by (simp add: submit_success [OF added_store_attempt] submit_success [OF started_store_attempt]
        added_store_attempt started_store_attempt s1 s2 pct_8_3 p2 submit_at_def)
qed
text \<open>
  C9. Of several overlapping starts for one student and one quiz exactly one should
  succeed, the check for an attempt in progress and the insertion being one atomic
  operation on the store. In the code they are two operations: \<open>startQuizAttempt\<close> is
  its check followed by its insertion, and when two calls both run the check before either
  inserts, both succeed and the student has two attempts in progress.
\<close>

theorem overlapping_starts_both_succeed:
  "startQuizAttempt env qid sid st =
     (case start_check env qid sid st of
        Inl e \<Rightarrow> (Inl e, st)
      | Inr read \<Rightarrow> start_insert env qid sid read st) \<and>
   two_starts_interleaved (start_at 1500 ''a1'') (start_at 1501 ''a2'')
       ''cquiz00000000000000000000'' ''student1'' example_store =
     (Inr \<lparr> attemptId = ''a1'',
            quiz = \<lparr> id_view = id_quiz example_quiz, title_view = title example_quiz,
                     description_view = description example_quiz,
                     durationMins_view = durationMins example_quiz,
                     startTime_view = startTime example_quiz, endTime_view = endTime example_quiz,
                     questions_view = map question_to_view [example_q1, example_q2] \<rparr> \<rparr>,
      Inr \<lparr> attemptId = ''a2'',
            quiz = \<lparr> id_view = id_quiz example_quiz, title_view = title example_quiz,
                     description_view = description example_quiz,
                     durationMins_view = durationMins example_quiz,
                     startTime_view = startTime example_quiz, endTime_view = endTime example_quiz,
                     questions_view = map question_to_view [example_q1, example_q2] \<rparr> \<rparr>,
      example_store\<lparr>attempts :=
        [new_attempt (start_at 1500 ''a1'') ''cquiz00000000000000000000'' ''student1'' 3,
         new_attempt (start_at 1501 ''a2'') ''cquiz00000000000000000000'' ''student1'' 3]\<rparr>) \<and>
   length (in_progress ''cquiz00000000000000000000'' ''student1''
     (snd (snd (two_starts_interleaved (start_at 1500 ''a1'') (start_at 1501 ''a2'')
       ''cquiz00000000000000000000'' ''student1'' example_store)))) = 2"
proof -
  have eq: "two_starts_interleaved (start_at 1500 ''a1'') (start_at 1501 ''a2'')
       ''cquiz00000000000000000000'' ''student1'' example_store =
     (Inr \<lparr> attemptId = ''a1'',
            quiz = \<lparr> id_view = id_quiz example_quiz, title_view = title example_quiz,
                     description_view = description example_quiz,
                     durationMins_view = durationMins example_quiz,
                     startTime_view = startTime example_quiz, endTime_view = endTime example_quiz,
                     questions_view = map question_to_view [example_q1, example_q2] \<rparr> \<rparr>,
      Inr \<lparr> attemptId = ''a2'',
            quiz = \<lparr> id_view = id_quiz example_quiz, title_view = title example_quiz,
                     description_view = description example_quiz,
                     durationMins_view = durationMins example_quiz,
                     startTime_view = startTime example_quiz, endTime_view = endTime example_quiz,
                     questions_view = map question_to_view [example_q1, example_q2] \<rparr> \<rparr>,
      example_store\<lparr>attempts :=
        [new_attempt (start_at 1500 ''a1'') ''cquiz00000000000000000000'' ''student1'' 3,
         new_attempt (start_at 1501 ''a2'') ''cquiz00000000000000000000'' ''student1'' 3]\<rparr>)"
    by (simp add: two_starts_interleaved_def example_start_check start_insert_def Let_def)
       (simp add: example_store_def example_q1_def example_q2_def new_attempt_def start_at_def)
  have two: "length (in_progress ''cquiz00000000000000000000'' ''student1''
     (snd (snd (two_starts_interleaved (start_at 1500 ''a1'') (start_at 1501 ''a2'')
       ''cquiz00000000000000000000'' ''student1'' example_store)))) = 2"
    unfolding eq by (simp add: in_progress_def new_attempt_def)
  from startQuizAttempt_two_halves [of env qid sid st] eq two show ?thesis
    by simp
qed



end
